theory Spec2Isabelle
  imports Complex_Main
begin

section \<open>Data model\<close>

text \<open>
  The development follows \<^verbatim>\<open>src/neuronx_distributed/parallel_layers/grads.py\<close>.
  A tensor is the list of its elements, and floating-point numbers are idealised as reals.
  The scalar \<^verbatim>\<open>total_norm\<close> can also be the floating-point infinity: a negative power of an
  exact zero is \<^verbatim>\<open>inf\<close>, so it is a real or \<open>PInf\<close>.  A parameter carries its optional
  gradient and its optional metadata attributes (\<open>None\<close>: the attribute does not exist on the
  object, what \<^verbatim>\<open>hasattr\<close> and \<^verbatim>\<open>getattr\<close> probe).

  \<open>not_tp_duplicate\<close> is the answer of \<^verbatim>\<open>param_is_not_tensor_parallel_duplicate(param)\<close>
  on the rank that holds the parameter.  That predicate is imported from \<^verbatim>\<open>layers.py\<close>,
  which is not among the sources, so its answer is an input of the model.
\<close>

type_synonym tensor = "real list"

text \<open>
  A non-negative floating-point scalar: finite or \<^verbatim>\<open>inf\<close>.  \<open>xadd\<close>, \<open>xmax\<close> and \<open>xdiv\<close> are
  \<^verbatim>\<open>+\<close>, the maximum and the division by a size.  \<open>xpow b e\<close> is \<^verbatim>\<open>b ** e\<close> for a base that is
  not negative: \<^verbatim>\<open>b ** 0 = 1\<close>, \<^verbatim>\<open>0 ** e\<close> is \<^verbatim>\<open>inf\<close> for a negative exponent and 0 for a
  positive one, \<^verbatim>\<open>inf ** e\<close> is 0 for a negative exponent and \<^verbatim>\<open>inf\<close> for a positive one.
\<close>

datatype xreal = Fin real | PInf

fun xadd :: "xreal \<Rightarrow> xreal \<Rightarrow> xreal" where
  "xadd (Fin a) (Fin b) = Fin (a + b)"
| "xadd a b = PInf"

fun xmax :: "xreal \<Rightarrow> xreal \<Rightarrow> xreal" where
  "xmax (Fin a) (Fin b) = Fin (max a b)"
| "xmax a b = PInf"

fun xdiv :: "xreal \<Rightarrow> nat \<Rightarrow> xreal" where
  "xdiv (Fin a) n = Fin (a / real n)"
| "xdiv PInf n = PInf"

fun xpow :: "xreal \<Rightarrow> real \<Rightarrow> xreal" where
  "xpow (Fin b) e =
     (if e = 0 then Fin 1
      else if b = 0 then (if e < 0 then PInf else Fin 0)
      else Fin (b powr e))"
| "xpow PInf e = (if e = 0 then Fin 1 else if e < 0 then Fin 0 else PInf)"

definition xsum :: "xreal list \<Rightarrow> xreal" where
  "xsum xs = foldr xadd xs (Fin 0)"

record param =
  grad :: "tensor option"
  shared :: "bool option"
  tensor_model_parallel :: "bool option"
  sequence_parallel_enabled :: "bool option"
  not_tp_duplicate :: bool

text \<open>
  \<^verbatim>\<open>torch.isinf(torch.tensor(norm_type))\<close> separates the infinity norm from the p-norms.
\<close>

datatype norm_type = Inf_norm | P_norm real

datatype reduce_op = Reduce_sum | Reduce_max

text \<open>
  The exceptions the code can raise: the \<^verbatim>\<open>ValueError\<close> of the configuration check (line 54),
  the \<^verbatim>\<open>ValueError\<close> of Python's \<^verbatim>\<open>max\<close> on an empty generator, the \<^verbatim>\<open>RuntimeError\<close> of
  \<^verbatim>\<open>Tensor.max()\<close> on a tensor without elements, the \<^verbatim>\<open>ZeroDivisionError\<close> of
  \<^verbatim>\<open>1.0 / norm_type\<close> (line 136) for \<^verbatim>\<open>norm_type = 0\<close>, and the \<^verbatim>\<open>TypeError\<close> of \<^verbatim>\<open>torch.where\<close>
  (line 189) when its condition is a Python \<^verbatim>\<open>bool\<close> and not a tensor.
\<close>

datatype error =
    InvalidConfiguration
  | MaxOfEmptySequence
  | MaxOfEmptyTensor
  | ZeroDivisionError
  | TypeError

text \<open>
  Modelled from the spec: the Parallel Topology Registry (\<^verbatim>\<open>parallel_state.py\<close>) is not among
  the sources.  The model keeps what the code reads from it: the tensor-parallel and
  pipeline-parallel sizes and, for all ranks together, the groups each axis splits the
  ranks into.
\<close>

record topology =
  tp_size :: nat
  tp_groups :: "nat list list"
  pp_size :: nat
  pp_groups :: "nat list list"

datatype axis = World | Tensor_parallel | Pipeline_parallel

text \<open>
  What a call leaves behind besides its result: the device it acquires
  (\<^verbatim>\<open>xm.xla_device()\<close>) and the collectives it issues, in program order.
  \<open>Dist_all_reduce\<close> is \<^verbatim>\<open>torch.distributed.all_reduce(t, op, group)\<close>; \<open>Xm_all_reduce\<close> is
  \<^verbatim>\<open>xm.all_reduce(op, [t], groups, pin_layout)\<close>.
\<close>

datatype event =
    Xla_device
  | Dist_all_reduce reduce_op axis
  | Xm_all_reduce reduce_op "nat list list" bool

section \<open>Collectives on a cluster in lock step\<close>

text \<open>
  Modelled from the spec: the collective primitive (all-reduce with SUM or MAX, the result
  left in place on every member of the group) belongs to the communication runtime.  All
  ranks run the same program in lock step; \<open>vals ! r\<close> is the scalar rank \<open>r\<close> contributes.
  A rank that belongs to none of the groups keeps its value.
\<close>

fun reduce_vals :: "reduce_op \<Rightarrow> xreal list \<Rightarrow> xreal" where
  "reduce_vals Reduce_sum xs = xsum xs"
| "reduce_vals Reduce_max [] = Fin 0"
| "reduce_vals Reduce_max (x # xs) = fold xmax xs x"

definition all_reduce :: "reduce_op \<Rightarrow> nat list list \<Rightarrow> xreal list \<Rightarrow> xreal list" where
  "all_reduce rop groups vals =
     map (\<lambda>r. case find (\<lambda>g. r \<in> set g) groups of
                 None \<Rightarrow> vals ! r
               | Some g \<Rightarrow> reduce_vals rop (map (\<lambda>i. vals ! i) (filter (\<lambda>i. i < length vals) g)))
         [0..<length vals]"

definition axis_groups :: "topology \<Rightarrow> nat \<Rightarrow> axis \<Rightarrow> nat list list" where
  "axis_groups topo n ax =
     (case ax of
        World \<Rightarrow> [[0..<n]]
      | Tensor_parallel \<Rightarrow> tp_groups topo
      | Pipeline_parallel \<Rightarrow> pp_groups topo)"

definition dist_all_reduce ::
  "topology \<Rightarrow> reduce_op \<Rightarrow> axis \<Rightarrow> xreal list \<times> event list \<Rightarrow> xreal list \<times> event list" where
  "dist_all_reduce topo rop ax st =
     (all_reduce rop (axis_groups topo (length (fst st)) ax) (fst st),
      snd st @ [Dist_all_reduce rop ax])"

text \<open>\<^verbatim>\<open>xm.all_reduce\<close> treats an empty \<^verbatim>\<open>groups\<close> list as one group of all replicas.\<close>

definition xm_all_reduce ::
  "reduce_op \<Rightarrow> nat list list \<Rightarrow> bool \<Rightarrow> xreal list \<times> event list \<Rightarrow> xreal list \<times> event list" where
  "xm_all_reduce rop groups pin_layout st =
     (all_reduce rop (if groups = [] then [[0..<length (fst st)]] else groups) (fst st),
      snd st @ [Xm_all_reduce rop groups pin_layout])"

section \<open>Global gradient norm\<close>

text \<open>\<^verbatim>\<open>param_is_not_shared\<close>, line 25.\<close>

definition param_is_not_shared :: "param \<Rightarrow> bool" where
  "param_is_not_shared p = (case shared p of None \<Rightarrow> True | Some s \<Rightarrow> \<not> s)"

text \<open>The local \<^verbatim>\<open>is_tp_param\<close>, line 98.\<close>

definition is_tp_param :: "param \<Rightarrow> bool" where
  "is_tp_param p = (case tensor_model_parallel p of None \<Rightarrow> False | Some t \<Rightarrow> t)"

text \<open>The three lists the loop of lines 91 to 109 fills.\<close>

record buckets =
  grads :: "tensor list"
  grads_for_norm :: "tensor list"
  grads_for_norm_tp_duplicated :: "tensor list"

definition no_grads :: buckets where
  "no_grads = \<lparr>grads = [], grads_for_norm = [], grads_for_norm_tp_duplicated = []\<rparr>"

text \<open>One iteration of the loop, lines 95 to 109.\<close>

definition collect_param :: "bool \<Rightarrow> buckets \<Rightarrow> param \<Rightarrow> buckets" where
  "collect_param force_spmd b p =
     (case grad p of
        None \<Rightarrow> b
      | Some g \<Rightarrow>
          (let b1 = b\<lparr>grads := grads b @ [g]\<rparr> in
           if param_is_not_shared p then
             (if is_tp_param p \<or> (not_tp_duplicate p \<and> \<not> force_spmd)
              then b1\<lparr>grads_for_norm := grads_for_norm b1 @ [g]\<rparr>
              else if force_spmd
              then b1\<lparr>grads_for_norm_tp_duplicated := grads_for_norm_tp_duplicated b1 @ [g]\<rparr>
              else b1)
           else b1))"

definition collect_grads :: "bool \<Rightarrow> param list \<Rightarrow> buckets" where
  "collect_grads force_spmd ps = foldl (collect_param force_spmd) no_grads ps"

text \<open>\<^verbatim>\<open>grad.abs().max()\<close>: a tensor without elements has no maximum.\<close>

definition abs_max :: "tensor \<Rightarrow> error + real" where
  "abs_max g = (case g of [] \<Rightarrow> Inl MaxOfEmptyTensor | x # xs \<Rightarrow> Inr (fold max (map abs xs) \<bar>x\<bar>))"

text \<open>
  \<^verbatim>\<open>max(grad.abs().max() for grad in gs)\<close>: Python's \<^verbatim>\<open>max\<close> raises on an empty
  generator, and otherwise evaluates the elements in order.
\<close>

fun max_from :: "real \<Rightarrow> tensor list \<Rightarrow> error + real" where
  "max_from m [] = Inr m"
| "max_from m (g # gs) = (case abs_max g of Inl e \<Rightarrow> Inl e | Inr v \<Rightarrow> max_from (max m v) gs)"

definition py_max :: "tensor list \<Rightarrow> error + real" where
  "py_max gs =
     (case gs of
        [] \<Rightarrow> Inl MaxOfEmptySequence
      | g # rest \<Rightarrow> (case abs_max g of Inl e \<Rightarrow> Inl e | Inr v \<Rightarrow> max_from v rest))"

text \<open>
  \<^verbatim>\<open>torch.norm(grad, p)\<close> for a finite order \<open>p\<close>: the number of non-zero elements for
  \<open>p = 0\<close>, and \<open>(\<Sum> |x| ** p) ** (1 / p)\<close> otherwise, which for a negative \<open>p\<close> is 0 as soon as
  an element is 0.
\<close>

definition torch_norm :: "tensor \<Rightarrow> real \<Rightarrow> xreal" where
  "torch_norm g p =
     (if p = 0 then Fin (real (length (filter (\<lambda>x. x \<noteq> 0) g)))
      else xpow (xsum (map (\<lambda>x. xpow (Fin \<bar>x\<bar>) p) g)) (1 / p))"

text \<open>
  The loops \<^verbatim>\<open>for grad in gs: total_norm += torch.norm(grad, p) ** p\<close> of lines 126 and 131.
\<close>

definition add_pow_norms :: "real \<Rightarrow> xreal \<Rightarrow> tensor list \<Rightarrow> xreal" where
  "add_pow_norms p total_norm gs =
     foldl (\<lambda>t g. xadd t (xpow (torch_norm g p) p)) total_norm gs"

text \<open>
  What one rank holds in \<^verbatim>\<open>total_norm\<close> when it calls
  \<^verbatim>\<open>_allreduce_norm_across_parallel_groups\<close> (line 121 or 135); \<open>force_spmd\<close> is the flag
  after line 51.
\<close>

definition local_total_norm :: "nat \<Rightarrow> norm_type \<Rightarrow> bool \<Rightarrow> param list \<Rightarrow> error + xreal" where
  "local_total_norm tp nt force_spmd ps =
     (let b = collect_grads force_spmd ps in
      case nt of
        Inf_norm \<Rightarrow>
          (case py_max (grads_for_norm_tp_duplicated b) of
             Inl e \<Rightarrow> Inl e
           | Inr total_norm_tp_duplicated \<Rightarrow>
               (case py_max (grads_for_norm b) of
                  Inl e \<Rightarrow> Inl e
                | Inr total_norm \<Rightarrow> Inr (Fin (max total_norm_tp_duplicated total_norm))))
      | P_norm p \<Rightarrow>
          (let t0 = Fin 0;
               t1 = (if force_spmd
                     then xdiv (add_pow_norms p t0 (grads_for_norm_tp_duplicated b)) tp
                     else t0)
           in Inr (add_pow_norms p t1 (grads_for_norm b))))"

text \<open>\<^verbatim>\<open>_allreduce_norm_across_parallel_groups\<close>, lines 58 to 84, on the scalars of all ranks.\<close>

definition allreduce_norm_across_parallel_groups ::
  "topology \<Rightarrow> bool \<Rightarrow> nat list list option \<Rightarrow> reduce_op \<Rightarrow>
   xreal list \<times> event list \<Rightarrow> xreal list \<times> event list" where
  "allreduce_norm_across_parallel_groups topo zero1_optimizer zero1_optimizer_groups rop st =
     (if zero1_optimizer \<and> zero1_optimizer_groups = None
      then dist_all_reduce topo rop World st
      else
        (let st1 = (if tp_size topo > 1 then dist_all_reduce topo rop Tensor_parallel st else st);
             st2 = (if pp_size topo > 1 then dist_all_reduce topo rop Pipeline_parallel st1 else st1)
         in case zero1_optimizer_groups of
              None \<Rightarrow> st2
            | Some groups \<Rightarrow> xm_all_reduce Reduce_sum groups True st2))"

text \<open>The first rank that raises decides the outcome of the step.\<close>

fun first_error :: "(error + 'a) list \<Rightarrow> error + 'a list" where
  "first_error [] = Inr []"
| "first_error (Inl e # rs) = Inl e"
| "first_error (Inr v # rs) = (case first_error rs of Inl e \<Rightarrow> Inl e | Inr vs \<Rightarrow> Inr (v # vs))"

definition reduce_op_of :: "norm_type \<Rightarrow> reduce_op" where
  "reduce_op_of nt = (case nt of Inf_norm \<Rightarrow> Reduce_max | P_norm p \<Rightarrow> Reduce_sum)"

text \<open>
  \<^verbatim>\<open>get_grad_norm\<close> up to and including the cross-group reduction (line 121 or 135):
  \<open>parameters ! r\<close> are the parameters of rank \<open>r\<close>, the result holds \<^verbatim>\<open>total_norm\<close> of every
  rank.  The configuration check comes first and leaves no event.  A rank whose local
  computation raises never reaches the collective, in which its peers then wait.
\<close>

definition reduced_total_norm ::
  "topology \<Rightarrow> param list list \<Rightarrow> norm_type \<Rightarrow> bool \<Rightarrow> nat list list option \<Rightarrow> bool \<Rightarrow>
   (error + xreal list) \<times> event list" where
  "reduced_total_norm topo parameters nt zero1_optimizer zero1_optimizer_groups force_spmd0 =
     (let force_spmd = (if nt = Inf_norm then True else force_spmd0) in
      if \<not> zero1_optimizer \<and> zero1_optimizer_groups \<noteq> None
      then (Inl InvalidConfiguration, [])
      else
        (case first_error (map (local_total_norm (tp_size topo) nt force_spmd) parameters) of
           Inl e \<Rightarrow> (Inl e, [Xla_device])
         | Inr vals \<Rightarrow>
             (let st = allreduce_norm_across_parallel_groups topo zero1_optimizer
                          zero1_optimizer_groups (reduce_op_of nt) (vals, [Xla_device])
              in (Inr (fst st), snd st))))"

text \<open>
  \<^verbatim>\<open>get_grad_norm\<close>, lines 29 to 138: after the reduction the infinity norm is returned as a
  Python float (line 122) and a p-norm takes the root and stays a tensor (line 136).
\<close>

definition get_grad_norm ::
  "topology \<Rightarrow> param list list \<Rightarrow> norm_type \<Rightarrow> bool \<Rightarrow> nat list list option \<Rightarrow> bool \<Rightarrow>
   (error + xreal list) \<times> event list" where
  "get_grad_norm topo parameters nt zero1_optimizer zero1_optimizer_groups force_spmd =
     (case reduced_total_norm topo parameters nt zero1_optimizer zero1_optimizer_groups force_spmd of
        (Inl e, evs) \<Rightarrow> (Inl e, evs)
      | (Inr total_norm, evs) \<Rightarrow>
          (case nt of
             Inf_norm \<Rightarrow> (Inr total_norm, evs)
           | P_norm p \<Rightarrow>
               if p = 0 then (Inl ZeroDivisionError, evs)
               else (Inr (map (\<lambda>t. xpow t (1 / p)) total_norm), evs)))"

section \<open>Gradient clipping\<close>

text \<open>\<^verbatim>\<open>g.data.mul_(factor)\<close> on the gradient of a parameter, if it has one.\<close>

definition mul_grad :: "real \<Rightarrow> param \<Rightarrow> param" where
  "mul_grad c p = (case grad p of None \<Rightarrow> p | Some g \<Rightarrow> p\<lparr>grad := Some (map (\<lambda>x. x * c) g)\<rparr>)"

text \<open>
  Line 187, \<^verbatim>\<open>clip_coeff = max_norm / (total_norm + 1.0e-6)\<close>, for a finite \<^verbatim>\<open>max_norm\<close>.
\<close>

definition clip_coeff_of :: "real \<Rightarrow> xreal \<Rightarrow> real" where
  "clip_coeff_of max_norm total_norm =
     (case total_norm of Fin t \<Rightarrow> max_norm / (t + 1 / 1000000) | PInf \<Rightarrow> 0)"

text \<open>
  Lines 188 and 189 on one rank, when \<^verbatim>\<open>total_norm\<close> and with it \<^verbatim>\<open>clip_coeff\<close> is a tensor.
\<close>

definition scale_rank :: "real \<Rightarrow> xreal \<Rightarrow> param list \<Rightarrow> param list" where
  "scale_rank max_norm total_norm ps =
     (let clip_coeff = clip_coeff_of max_norm total_norm
      in map (mul_grad (if clip_coeff < 1 then clip_coeff else 1)) ps)"

text \<open>Lines 181 to 185: the rank has a gradient to scale.\<close>

definition has_grads :: "param list \<Rightarrow> bool" where
  "has_grads ps = list_ex (\<lambda>p. grad p \<noteq> None) ps"

text \<open>
  \<^verbatim>\<open>clip_grad_norm\<close>, lines 141 to 190: the result and the events, and the parameters of
  every rank after the call.  The parameters of a rank are distinct objects.  With the
  infinity norm \<^verbatim>\<open>total_norm\<close> is a Python float, so \<^verbatim>\<open>clip_coeff < 1\<close> is a \<^verbatim>\<open>bool\<close> and the
  first \<^verbatim>\<open>torch.where\<close> of the loop of line 188 raises before anything is scaled; with a
  p-norm both are tensors and every gradient is scaled.
\<close>

definition clip_grad_norm ::
  "topology \<Rightarrow> param list list \<Rightarrow> real \<Rightarrow> norm_type \<Rightarrow> bool \<Rightarrow> nat list list option \<Rightarrow> bool \<Rightarrow>
   ((error + xreal list) \<times> event list) \<times> param list list" where
  "clip_grad_norm topo parameters max_norm nt zero1_optimizer zero1_optimizer_groups force_spmd =
     (case get_grad_norm topo parameters nt zero1_optimizer zero1_optimizer_groups force_spmd of
        (Inl e, evs) \<Rightarrow> ((Inl e, evs), parameters)
      | (Inr total_norm, evs) \<Rightarrow>
          (case nt of
             Inf_norm \<Rightarrow>
               if list_ex has_grads parameters
               then ((Inl TypeError, evs @ [Xla_device]), parameters)
               else ((Inr total_norm, evs @ [Xla_device]), parameters)
           | P_norm p \<Rightarrow>
               ((Inr total_norm, evs @ [Xla_device]),
                map2 (scale_rank max_norm) total_norm parameters)))"

section \<open>Bucketed all-reduce\<close>

text \<open>
  A gradient as \<^verbatim>\<open>bucket_allreduce_gradients\<close> sees it: the tensor object (\<open>label\<close> names it),
  its element type, \<^verbatim>\<open>numel()\<close>, \<^verbatim>\<open>element_size()\<close> and its elements by index.
\<close>

type_synonym dtype = string

record grad_tensor =
  label :: string
  dtype :: dtype
  numel :: nat
  element_size :: nat
  elems :: "nat \<Rightarrow> real"

text \<open>
  Line 198: \<^verbatim>\<open>int(os.getenv("ALLREDUCE_BUCKET_CAP_MB", 512)) * 1024 * 1024\<close>; the argument is the
  integer the environment variable holds, if it is set.
\<close>

definition bucket_cap_bytes :: "int option \<Rightarrow> int" where
  "bucket_cap_bytes env = (case env of None \<Rightarrow> 512 | Some mb \<Rightarrow> mb) * 1024 * 1024"

text \<open>Lines 200 to 205: the dictionary keeps its keys in the order of their first insertion.\<close>

definition add_to_dtype_group ::
  "(dtype \<times> grad_tensor list) list \<Rightarrow> grad_tensor \<Rightarrow> (dtype \<times> grad_tensor list) list" where
  "add_to_dtype_group dtype_groups g =
     (let tp = dtype g;
          groups1 = (if tp \<notin> set (map fst dtype_groups) then dtype_groups @ [(tp, [])]
                     else dtype_groups)
      in map (\<lambda>(k, gs). if k = tp then (k, gs @ [g]) else (k, gs)) groups1)"

definition dtype_groups_of :: "grad_tensor list \<Rightarrow> (dtype \<times> grad_tensor list) list" where
  "dtype_groups_of grads_list = foldl add_to_dtype_group [] grads_list"

text \<open>Line 220: \<^verbatim>\<open>grad.data /= get_data_parallel_size()\<close>; line 221: \<^verbatim>\<open>grad_bytes\<close>.\<close>

definition div_data :: "nat \<Rightarrow> grad_tensor \<Rightarrow> grad_tensor" where
  "div_data dp g = g\<lparr>elems := (\<lambda>i. elems g i / real dp)\<rparr>"

definition grad_bytes :: "grad_tensor \<Rightarrow> int" where
  "grad_bytes g = int (numel g * element_size g)"

text \<open>
  The state of the loop of lines 219 to 241: the running byte count, the bucket, and the
  \<^verbatim>\<open>xm.all_reduce("sum", bucket, groups)\<close> calls issued so far, each with the tensors it
  was given.
\<close>

record bucket_state =
  total_bytes :: int
  tensor_bucket :: "grad_tensor list"
  flushed :: "grad_tensor list list"

definition bucket_step :: "int \<Rightarrow> nat \<Rightarrow> bucket_state \<Rightarrow> grad_tensor \<Rightarrow> bucket_state" where
  "bucket_step bucket_cap dp st g0 =
     (let g = div_data dp g0 in
      if grad_bytes g > bucket_cap then
        (let st1 = (if tensor_bucket st \<noteq> []
                    then st\<lparr>total_bytes := 0, tensor_bucket := [],
                            flushed := flushed st @ [tensor_bucket st]\<rparr>
                    else st)
         in st1\<lparr>flushed := flushed st1 @ [[g]]\<rparr>)
      else
        (let st1 = st\<lparr>total_bytes := total_bytes st + grad_bytes g\<rparr>;
             st2 = (if total_bytes st1 > bucket_cap
                    then st1\<lparr>total_bytes := grad_bytes g, tensor_bucket := [],
                             flushed := flushed st1 @ [tensor_bucket st1]\<rparr>
                    else st1)
         in st2\<lparr>tensor_bucket := tensor_bucket st2 @ [g]\<rparr>))"

text \<open>Lines 214 to 246 for the gradients of one element type.\<close>

definition bucket_dtype_group :: "int \<Rightarrow> nat \<Rightarrow> grad_tensor list \<Rightarrow> grad_tensor list list" where
  "bucket_dtype_group bucket_cap dp gs =
     (let st = foldl (bucket_step bucket_cap dp)
                 \<lparr>total_bytes = 0, tensor_bucket = [], flushed = []\<rparr> (rev gs)
      in if tensor_bucket st \<noteq> [] then flushed st @ [tensor_bucket st] else flushed st)"

text \<open>
  \<^verbatim>\<open>bucket_allreduce_gradients\<close>, lines 193 to 246: the all-reduce calls it issues, in order.
  \<open>dp\<close> is \<^verbatim>\<open>get_data_parallel_size()\<close>.
\<close>

definition bucket_allreduce_gradients ::
  "int option \<Rightarrow> nat \<Rightarrow> grad_tensor list \<Rightarrow> grad_tensor list list" where
  "bucket_allreduce_gradients env dp grads_list =
     concat (map (\<lambda>(tp, gs). bucket_dtype_group (bucket_cap_bytes env) dp gs)
                 (dtype_groups_of grads_list))"

section \<open>Sequence-parallel gradient reducer\<close>

text \<open>
  An entry of a parameter group's \<^verbatim>\<open>"params"\<close> list is a tensor or something else
  (\<^verbatim>\<open>isinstance(p, torch.Tensor)\<close>); a parameter group is a dictionary, kept as the list of
  its items.
\<close>

datatype opt_entry = Tensor_entry param | Other_entry

type_synonym param_group = "(string \<times> opt_entry list) list"

text \<open>\<^verbatim>\<open>getattr(obj, name, default)\<close>.\<close>

definition getattr_default :: "'a option \<Rightarrow> 'a \<Rightarrow> 'a" where
  "getattr_default attr d = (case attr of None \<Rightarrow> d | Some v \<Rightarrow> v)"

text \<open>Lines 259 to 262 for one entry.\<close>

definition sequence_parallel_grad :: "opt_entry \<Rightarrow> tensor list" where
  "sequence_parallel_grad e =
     (case e of
        Other_entry \<Rightarrow> []
      | Tensor_entry p \<Rightarrow>
          (case grad p of
             None \<Rightarrow> []
           | Some g \<Rightarrow>
               (let sequence_parallel_param = getattr_default (sequence_parallel_enabled p) False
                in if sequence_parallel_param then [g] else [])))"

text \<open>
  \<^verbatim>\<open>allreduce_sequence_parallel_gradients\<close>, lines 249 to 264: the gradients handed to
  \<^verbatim>\<open>reduce_from_tensor_model_parallel_region\<close>, in order.
\<close>

definition allreduce_sequence_parallel_gradients :: "param_group list \<Rightarrow> tensor list" where
  "allreduce_sequence_parallel_gradients param_groups =
     concat (map (\<lambda>param_group.
               concat (map (\<lambda>(group, params).
                         if group = ''params'' then concat (map sequence_parallel_grad params)
                         else [])
                       param_group))
             param_groups)"

section \<open>The specification's reading, for comparison\<close>

text \<open>
  The specification describes the classifier as a choice of one bucket per parameter.
  \<open>spec_bucket\<close> follows its words; \<open>grads_in\<close> lists the gradients of the parameters a
  bucket receives, in the order of the parameters.
\<close>

datatype bucket_kind = Excluded | Partitioned | Duplicated

definition spec_bucket :: "bool \<Rightarrow> param \<Rightarrow> bucket_kind" where
  "spec_bucket force_spmd p =
     (if grad p = None \<or> \<not> param_is_not_shared p then Excluded
      else if is_tp_param p \<or> (\<not> force_spmd \<and> not_tp_duplicate p) then Partitioned
      else if force_spmd \<and> \<not> is_tp_param p then Duplicated
      else Excluded)"

definition grads_in :: "bucket_kind \<Rightarrow> bool \<Rightarrow> param list \<Rightarrow> tensor list" where
  "grads_in k force_spmd ps =
     List.map_filter (\<lambda>p. if spec_bucket force_spmd p = k then grad p else None) ps"

text \<open>
  The specification's design notes ask for a metadata record with defaulted boolean fields:
  every absent attribute is replaced by \<open>False\<close>.
\<close>

definition with_default_flags :: "param \<Rightarrow> param" where
  "with_default_flags p =
     p\<lparr>shared := Some (getattr_default (shared p) False),
       tensor_model_parallel := Some (getattr_default (tensor_model_parallel p) False),
       sequence_parallel_enabled := Some (getattr_default (sequence_parallel_enabled p) False)\<rparr>"

definition entry_with_default_flags :: "opt_entry \<Rightarrow> opt_entry" where
  "entry_with_default_flags e =
     (case e of Tensor_entry p \<Rightarrow> Tensor_entry (with_default_flags p) | Other_entry \<Rightarrow> Other_entry)"

section \<open>Example inputs\<close>

text \<open>
  A tensor-model-parallel parameter and a replicated one with a gradient each, and a
  two-rank topology without tensor or pipeline parallelism.  \<open>owner\<close> says whether the rank
  is the one \<^verbatim>\<open>param_is_not_tensor_parallel_duplicate\<close> designates.
\<close>

definition tp_param :: "tensor \<Rightarrow> param" where
  "tp_param g = \<lparr>grad = Some g, shared = None, tensor_model_parallel = Some True,
                 sequence_parallel_enabled = None, not_tp_duplicate = True\<rparr>"

definition replicated_param :: "tensor \<Rightarrow> bool \<Rightarrow> param" where
  "replicated_param g owner = \<lparr>grad = Some g, shared = None, tensor_model_parallel = None,
                 sequence_parallel_enabled = None, not_tp_duplicate = owner\<rparr>"

definition no_model_parallelism :: topology where
  "no_model_parallelism = \<lparr>tp_size = 1, tp_groups = [[0], [1]], pp_size = 1, pp_groups = [[0], [1]]\<rparr>"

text \<open>
  The specification's finite-p-norm path on one rank: the sum of \<open>|x|^p\<close> over the duplicated
  bucket divided by the tensor-parallel degree, plus the sum of \<open>|x|^p\<close> over the partitioned
  bucket.
\<close>

definition spec_pow_sum :: "real \<Rightarrow> tensor list \<Rightarrow> xreal" where
  "spec_pow_sum p gs = xsum (map (\<lambda>g. xsum (map (\<lambda>x. xpow (Fin \<bar>x\<bar>) p) g)) gs)"

definition spec_local_sum :: "nat \<Rightarrow> real \<Rightarrow> param list \<Rightarrow> xreal" where
  "spec_local_sum tp p ps =
     xadd (xdiv (spec_pow_sum p (grads_for_norm_tp_duplicated (collect_grads True ps))) tp)
          (spec_pow_sum p (grads_for_norm (collect_grads True ps)))"

text \<open>The reduction operation of a collective in the event log.\<close>

definition event_op :: "event \<Rightarrow> reduce_op option" where
  "event_op e =
     (case e of
        Xla_device \<Rightarrow> None
      | Dist_all_reduce rop ax \<Rightarrow> Some rop
      | Xm_all_reduce rop groups pin_layout \<Rightarrow> Some rop)"

text \<open>
  The specification's infinity-norm path on one rank: the larger of the maxima of the
  absolute values over the duplicated and over the partitioned bucket, the buckets being
  those of duplicate-avoidance mode.
\<close>

definition spec_local_max :: "param list \<Rightarrow> error + xreal" where
  "spec_local_max ps =
     (case py_max (grads_for_norm_tp_duplicated (collect_grads True ps)) of
        Inl e \<Rightarrow> Inl e
      | Inr d \<Rightarrow>
          (case py_max (grads_for_norm (collect_grads True ps)) of
             Inl e \<Rightarrow> Inl e
           | Inr t \<Rightarrow> Inr (Fin (max d t))))"

text \<open>Two ranks that form one tensor-parallel group.\<close>

definition tp_degree_two :: topology where
  "tp_degree_two = \<lparr>tp_size = 2, tp_groups = [[0, 1]], pp_size = 1, pp_groups = [[0], [1]]\<rparr>"

text \<open>A scalar that is not negative.\<close>

fun xnonneg :: "xreal \<Rightarrow> bool" where
  "xnonneg (Fin a) = (0 \<le> a)"
| "xnonneg PInf = True"

text \<open>
  The gradients of the specification's flush-ordering example: one element type, 4-byte
  elements, 100, 300, 200 and 600 MiB.
\<close>

definition sized_grad :: "string \<Rightarrow> nat \<Rightarrow> grad_tensor" where
  "sized_grad name mb =
     \<lparr>label = name, dtype = ''torch.float32'', numel = mb * 262144, element_size = 4,
      elems = (\<lambda>i. 1)\<rparr>"

definition flush_example :: "grad_tensor list" where
  "flush_example = [sized_grad ''g1'' 100, sized_grad ''g2'' 300, sized_grad ''g3'' 200,
                    sized_grad ''g4'' 600]"

text \<open>
  A well-formed all-reduce call is not empty and holds either a single tensor or tensors
  whose sizes add up to at most the bucket capacity.  The invariant of the loop: the byte
  count is the size of the bucket, a non-empty bucket fits the capacity, and every call
  issued so far is well-formed.
\<close>

definition call_ok :: "int \<Rightarrow> grad_tensor list \<Rightarrow> bool" where
  "call_ok bucket_cap c =
     (c \<noteq> [] \<and> (length c = 1 \<or> sum_list (map grad_bytes c) \<le> bucket_cap))"

definition bucket_inv :: "int \<Rightarrow> bucket_state \<Rightarrow> bool" where
  "bucket_inv bucket_cap st =
     (total_bytes st = sum_list (map grad_bytes (tensor_bucket st))
      \<and> (tensor_bucket st = [] \<or> total_bytes st \<le> bucket_cap)
      \<and> list_all (call_ok bucket_cap) (flushed st))"

section \<open>The classifier\<close>

lemma grads_in_Nil: "grads_in k fs [] = []"
  by (simp add: grads_in_def List.map_filter_simps)

lemma grads_in_Cons:
  "grads_in k fs (p # ps) =
     (case grad p of None \<Rightarrow> grads_in k fs ps
      | Some g \<Rightarrow> if spec_bucket fs p = k then g # grads_in k fs ps else grads_in k fs ps)"
  by (simp add: grads_in_def List.map_filter_simps split: option.split)

lemma collect_param_eq:
  "collect_param fs b p =
     \<lparr>grads = grads b @ List.map_filter grad [p],
      grads_for_norm = grads_for_norm b @ grads_in Partitioned fs [p],
      grads_for_norm_tp_duplicated = grads_for_norm_tp_duplicated b @ grads_in Duplicated fs [p]\<rparr>"
  by (cases "grad p")
     (simp_all add: collect_param_def grads_in_Cons grads_in_Nil spec_bucket_def
        List.map_filter_simps Let_def)

lemma foldl_collect_param:
  "foldl (collect_param fs) b ps =
     \<lparr>grads = grads b @ List.map_filter grad ps,
      grads_for_norm = grads_for_norm b @ grads_in Partitioned fs ps,
      grads_for_norm_tp_duplicated = grads_for_norm_tp_duplicated b @ grads_in Duplicated fs ps\<rparr>"
proof (induction ps arbitrary: b)
  case Nil
  show ?case by (simp add: grads_in_Nil List.map_filter_simps)
next
  case (Cons p ps)
  have "foldl (collect_param fs) b (p # ps) = foldl (collect_param fs) (collect_param fs b p) ps"
    by simp
  also have "\<dots> =
     \<lparr>grads = grads (collect_param fs b p) @ List.map_filter grad ps,
      grads_for_norm = grads_for_norm (collect_param fs b p) @ grads_in Partitioned fs ps,
      grads_for_norm_tp_duplicated =
        grads_for_norm_tp_duplicated (collect_param fs b p) @ grads_in Duplicated fs ps\<rparr>"
    by (rule Cons.IH)
  also have "\<dots> =
     \<lparr>grads = grads b @ List.map_filter grad (p # ps),
      grads_for_norm = grads_for_norm b @ grads_in Partitioned fs (p # ps),
      grads_for_norm_tp_duplicated =
        grads_for_norm_tp_duplicated b @ grads_in Duplicated fs (p # ps)\<rparr>"
    by (simp add: collect_param_eq grads_in_Cons grads_in_Nil List.map_filter_simps
          split: option.split)
  finally show ?case .
qed

lemma collect_grads_eq:
  "collect_grads fs ps =
     \<lparr>grads = List.map_filter grad ps,
      grads_for_norm = grads_in Partitioned fs ps,
      grads_for_norm_tp_duplicated = grads_in Duplicated fs ps\<rparr>"
  by (simp add: collect_grads_def foldl_collect_param no_grads_def)

lemma grads_in_filter_shared:
  "k \<noteq> Excluded \<Longrightarrow> grads_in k fs (filter param_is_not_shared ps) = grads_in k fs ps"
  by (induction ps) (auto simp: grads_in_Cons spec_bucket_def split: option.split)

lemma local_total_norm_eq:
  "local_total_norm tp nt fs ps =
     (case nt of
        Inf_norm \<Rightarrow>
          (case py_max (grads_in Duplicated fs ps) of
             Inl e \<Rightarrow> Inl e
           | Inr d \<Rightarrow>
               (case py_max (grads_in Partitioned fs ps) of
                  Inl e \<Rightarrow> Inl e
                | Inr t \<Rightarrow> Inr (Fin (max d t))))
      | P_norm p \<Rightarrow>
          Inr (add_pow_norms p
                 (if fs then xdiv (add_pow_norms p (Fin 0) (grads_in Duplicated fs ps)) tp
                  else Fin 0)
                 (grads_in Partitioned fs ps)))"
  by (simp add: local_total_norm_def collect_grads_eq Let_def split: norm_type.split sum.split)

lemma local_total_norm_filter_shared:
  "local_total_norm tp nt fs (filter param_is_not_shared ps) = local_total_norm tp nt fs ps"
  by (simp add: local_total_norm_eq grads_in_filter_shared
        cong: norm_type.case_cong sum.case_cong if_cong)

text \<open>
  C4: every parameter goes to exactly one bucket.  The loop fills \<open>grads_for_norm\<close> with the
  gradients of the parameters whose bucket is \<open>Partitioned\<close> and
  \<open>grads_for_norm_tp_duplicated\<close> with those whose bucket is \<open>Duplicated\<close>, in order.  The
  bucket is \<open>Partitioned\<close> exactly when the gradient is present, the parameter is not shared
  and it is tensor-model-parallel or (force_spmd is off and it is not a tensor-parallel
  duplicate); it is \<open>Duplicated\<close> exactly when the gradient is present, the parameter is not
  shared, force_spmd is on and the parameter is not tensor-model-parallel.  A parameter
  without gradient and a shared parameter are excluded, and removing the shared
  parameters changes nothing in what a rank contributes to the norm.
\<close>

theorem classifier_buckets:
  "grads_for_norm (collect_grads fs ps) = grads_in Partitioned fs ps
   \<and> grads_for_norm_tp_duplicated (collect_grads fs ps) = grads_in Duplicated fs ps
   \<and> (spec_bucket fs p = Partitioned) =
       (grad p \<noteq> None \<and> param_is_not_shared p \<and> (is_tp_param p \<or> (\<not> fs \<and> not_tp_duplicate p)))
   \<and> (spec_bucket fs p = Duplicated) =
       (grad p \<noteq> None \<and> param_is_not_shared p \<and> fs \<and> \<not> is_tp_param p)
   \<and> spec_bucket fs (p\<lparr>grad := None\<rparr>) = Excluded
   \<and> spec_bucket fs (p\<lparr>shared := Some True\<rparr>) = Excluded
   \<and> local_total_norm tp nt fs (filter param_is_not_shared ps) = local_total_norm tp nt fs ps"
  by (auto simp: collect_grads_eq local_total_norm_filter_shared spec_bucket_def param_is_not_shared_def is_tp_param_def)

section \<open>Evaluation on the example inputs\<close>

lemmas example_defs = tp_param_def replicated_param_def no_model_parallelism_def

lemmas norm_defs = get_grad_norm_def reduced_total_norm_def local_total_norm_def
  collect_grads_def collect_param_def no_grads_def param_is_not_shared_def is_tp_param_def
  py_max_def abs_max_def allreduce_norm_across_parallel_groups_def xm_all_reduce_def
  dist_all_reduce_def all_reduce_def axis_groups_def reduce_op_of_def xsum_def

section \<open>Configuration check\<close>

lemma abs_max_not_invalid: "abs_max g \<noteq> Inl InvalidConfiguration"
  by (simp add: abs_max_def split: list.split)

lemma max_from_not_invalid: "max_from m gs \<noteq> Inl InvalidConfiguration"
  by (induction gs arbitrary: m) (auto simp: abs_max_not_invalid split: sum.split)

lemma py_max_not_invalid: "py_max gs \<noteq> Inl InvalidConfiguration"
  by (auto simp: py_max_def abs_max_not_invalid max_from_not_invalid split: list.split sum.split)

lemma local_total_norm_not_invalid: "local_total_norm tp nt fs ps \<noteq> Inl InvalidConfiguration"
  by (cases nt) (auto simp: local_total_norm_def Let_def py_max_not_invalid split: sum.split)

lemma first_error_Inl: "first_error rs = Inl e \<Longrightarrow> Inl e \<in> set rs"
  by (induction rs rule: first_error.induct) (auto split: sum.splits)

lemma reduced_not_invalid:
  "fst (reduced_total_norm topo ps nt z None fs) \<noteq> Inl InvalidConfiguration"
  by (auto simp: reduced_total_norm_def Let_def local_total_norm_not_invalid
        local_total_norm_not_invalid [THEN not_sym]
        split: sum.split dest!: first_error_Inl)

lemma get_grad_norm_not_invalid:
  "fst (get_grad_norm topo ps nt z None fs) \<noteq> Inl InvalidConfiguration"
  using reduced_not_invalid [of topo ps nt z fs]
  by (auto simp: get_grad_norm_def split: prod.split sum.split norm_type.split)

lemma reduced_total_norm_inf:
  "reduced_total_norm topo parameters Inf_norm z zg fs =
     (if \<not> z \<and> zg \<noteq> None then (Inl InvalidConfiguration, [])
      else
        (case first_error (map spec_local_max parameters) of
           Inl e \<Rightarrow> (Inl e, [Xla_device])
         | Inr vals \<Rightarrow>
             (Inr (fst (allreduce_norm_across_parallel_groups topo z zg Reduce_max
                          (vals, [Xla_device]))),
              snd (allreduce_norm_across_parallel_groups topo z zg Reduce_max
                          (vals, [Xla_device])))))"
proof -
  have "local_total_norm (tp_size topo) Inf_norm True = spec_local_max"
    by (rule ext) (simp add: local_total_norm_def spec_local_max_def Let_def)
  then show ?thesis
    by (simp add: reduced_total_norm_def reduce_op_of_def Let_def split: sum.split)
qed

lemma get_grad_norm_inf: 
  "get_grad_norm topo parameters Inf_norm z zg fs = reduced_total_norm topo parameters Inf_norm z zg fs"
  by (simp add: get_grad_norm_def split: prod.split sum.split)

text \<open>
  C5: with the infinity norm, \<^verbatim>\<open>get_grad_norm\<close> classifies with force_spmd on, whatever the
  caller passed: every rank takes its maxima over the buckets \<open>collect_grads True\<close> fills
  (\<open>spec_local_max\<close>), and the result is that of the call with force_spmd on.  A replicated
  gradient on a rank that is a tensor-parallel duplicate shows the difference: with
  force_spmd off a 2-norm leaves it out (the norm is 3), the infinity norm counts it (the
  norm is 5, where an empty duplicated bucket would raise).
\<close>

theorem inf_norm_forces_spmd:
  "get_grad_norm topo parameters Inf_norm z zg fs =
     (if \<not> z \<and> zg \<noteq> None then (Inl InvalidConfiguration, [])
      else
        (case first_error (map spec_local_max parameters) of
           Inl e \<Rightarrow> (Inl e, [Xla_device])
         | Inr vals \<Rightarrow>
             (Inr (fst (allreduce_norm_across_parallel_groups topo z zg Reduce_max
                          (vals, [Xla_device]))),
              snd (allreduce_norm_across_parallel_groups topo z zg Reduce_max
                          (vals, [Xla_device])))))
   \<and> get_grad_norm topo parameters Inf_norm z zg False =
       get_grad_norm topo parameters Inf_norm z zg True
   \<and> get_grad_norm no_model_parallelism [[tp_param [3], replicated_param [-5, 2] False]]
        Inf_norm False None False = (Inr [Fin 5], [Xla_device])
   \<and> get_grad_norm no_model_parallelism [[tp_param [3], replicated_param [-5, 2] False]]
        (P_norm 2) False None False = (Inr [Fin 3], [Xla_device])
   \<and> grads_for_norm_tp_duplicated (collect_grads False [tp_param [3], replicated_param [-5, 2] False])
        = []"
proof -
  have "get_grad_norm no_model_parallelism [[tp_param [3], replicated_param [-5, 2] False]]
        (P_norm 2) False None False = (Inr [Fin 3], [Xla_device])"
    by (simp add: example_defs norm_defs add_pow_norms_def torch_norm_def powr_half_sqrt Let_def)
  moreover have "get_grad_norm no_model_parallelism [[tp_param [3], replicated_param [-5, 2] False]]
        Inf_norm False None False = (Inr [Fin 5], [Xla_device])"
    by (simp add: example_defs norm_defs Let_def)
  moreover have "grads_for_norm_tp_duplicated
      (collect_grads False [tp_param [3], replicated_param [-5, 2] False]) = []"
    by (simp add: example_defs norm_defs Let_def)
  ultimately show ?thesis
    by (simp only: get_grad_norm_inf reduced_total_norm_inf simp_thms)
qed

text \<open>
  C6: with zero1_optimizer false and zero1_optimizer_groups supplied, \<^verbatim>\<open>get_grad_norm\<close> raises
  the configuration error with no event at all (no device acquired, no collective issued),
  whatever the parameters and their gradients are; \<^verbatim>\<open>clip_grad_norm\<close> raises it too and
  leaves every parameter as it was.
\<close>

theorem invalid_configuration_before_any_work:
  "get_grad_norm topo ps nt False (Some gs) fs = (Inl InvalidConfiguration, [])
   \<and> clip_grad_norm topo ps mx nt False (Some gs) fs = ((Inl InvalidConfiguration, []), ps)"
  by (simp add: get_grad_norm_def clip_grad_norm_def reduced_total_norm_def)

lemma clip_grad_norm_invalid_iff:
  "(fst (fst (clip_grad_norm topo ps mx nt z zg fs)) = Inl InvalidConfiguration) =
   (fst (get_grad_norm topo ps nt z zg fs) = Inl InvalidConfiguration)"
proof (cases "get_grad_norm topo ps nt z zg fs")
  case (Pair r evs)
  then show ?thesis
    by (cases r; cases nt) (simp_all add: clip_grad_norm_def)
qed

text \<open>
  C9: with zero1_optimizer false, the configuration error is raised exactly when
  zero1_optimizer_groups is not \<open>None\<close>; the empty list of groups raises it as well.  The same
  holds for \<^verbatim>\<open>clip_grad_norm\<close>.
\<close>

theorem configuration_check_tests_none:
  "(fst (get_grad_norm topo ps nt False zg fs) = Inl InvalidConfiguration) = (zg \<noteq> None)
   \<and> get_grad_norm topo ps nt False (Some []) fs = (Inl InvalidConfiguration, [])
   \<and> (fst (fst (clip_grad_norm topo ps mx nt False zg fs)) = Inl InvalidConfiguration) = (zg \<noteq> None)"
proof -
  have g: "(fst (get_grad_norm topo ps nt False zg fs) = Inl InvalidConfiguration) = (zg \<noteq> None)"
    using get_grad_norm_not_invalid [of topo ps nt False fs]
    by (cases zg) (auto simp: get_grad_norm_def reduced_total_norm_def)
  have "get_grad_norm topo ps nt False (Some []) fs = (Inl InvalidConfiguration, [])"
    by (simp add: get_grad_norm_def reduced_total_norm_def)
  with g show ?thesis by (simp add: clip_grad_norm_invalid_iff)
qed


section \<open>Absent attributes\<close>

lemma default_flags_simps:
  "grad (with_default_flags p) = grad p"
  "not_tp_duplicate (with_default_flags p) = not_tp_duplicate p"
  "param_is_not_shared (with_default_flags p) = param_is_not_shared p"
  "is_tp_param (with_default_flags p) = is_tp_param p"
  by (simp_all add: with_default_flags_def param_is_not_shared_def is_tp_param_def
        getattr_default_def split: option.split)

lemma collect_param_default_flags:
  "collect_param fs b (with_default_flags p) = collect_param fs b p"
  unfolding collect_param_def default_flags_simps by (rule refl)

lemma collect_grads_default_flags:
  "collect_grads fs (map with_default_flags ps) = collect_grads fs ps"
  by (simp add: collect_grads_def foldl_map collect_param_default_flags)

lemma local_total_norm_default_flags:
  "local_total_norm tp nt fs (map with_default_flags ps) = local_total_norm tp nt fs ps"
  by (simp add: local_total_norm_def collect_grads_default_flags)

lemma get_grad_norm_default_flags:
  "get_grad_norm topo (map (map with_default_flags) parameters) nt z zg fs =
   get_grad_norm topo parameters nt z zg fs"
  by (simp add: get_grad_norm_def reduced_total_norm_def local_total_norm_default_flags o_def)

lemma sequence_parallel_grad_default_flags:
  "sequence_parallel_grad (entry_with_default_flags e) = sequence_parallel_grad e"
  by (cases e)
     (simp_all add: sequence_parallel_grad_def entry_with_default_flags_def with_default_flags_def
        getattr_default_def split: option.split)

lemma allreduce_sequence_parallel_default_flags:
  "allreduce_sequence_parallel_gradients
     (map (map (\<lambda>(group, params). (group, map entry_with_default_flags params))) param_groups) =
   allreduce_sequence_parallel_gradients param_groups"
  by (simp add: allreduce_sequence_parallel_gradients_def o_def case_prod_unfold
        sequence_parallel_grad_default_flags cong: if_cong)

text \<open>
  C10: an absent attribute counts as false.  A parameter without \<open>shared\<close> is not shared and
  is collected like one whose \<open>shared\<close> is false (with force_spmd on, its gradient is in one
  of the two norm buckets); a parameter without \<open>tensor_model_parallel\<close> is not a
  tensor-parallel parameter and is collected like one whose flag is false; the
  sequence-parallel reducer skips a parameter without \<open>sequence_parallel_enabled\<close> as it
  skips one whose flag is false.  Replacing every absent attribute by false changes neither
  \<^verbatim>\<open>get_grad_norm\<close> nor \<^verbatim>\<open>allreduce_sequence_parallel_gradients\<close>.
\<close>

theorem absent_attributes_default_false:
  "param_is_not_shared (p\<lparr>shared := None\<rparr>)
   \<and> \<not> is_tp_param (p\<lparr>tensor_model_parallel := None\<rparr>)
   \<and> collect_param fs b (p\<lparr>shared := None\<rparr>) = collect_param fs b (p\<lparr>shared := Some False\<rparr>)
   \<and> collect_param fs b (p\<lparr>tensor_model_parallel := None\<rparr>) =
       collect_param fs b (p\<lparr>tensor_model_parallel := Some False\<rparr>)
   \<and> grads_for_norm (collect_param True no_grads (p\<lparr>shared := None, grad := Some g\<rparr>)) @
       grads_for_norm_tp_duplicated (collect_param True no_grads (p\<lparr>shared := None, grad := Some g\<rparr>)) = [g]
   \<and> sequence_parallel_grad (Tensor_entry (p\<lparr>sequence_parallel_enabled := None\<rparr>)) = []
   \<and> sequence_parallel_grad (Tensor_entry (p\<lparr>sequence_parallel_enabled := Some False\<rparr>)) = []
   \<and> get_grad_norm topo (map (map with_default_flags) parameters) nt z zg force_spmd =
       get_grad_norm topo parameters nt z zg force_spmd
   \<and> allreduce_sequence_parallel_gradients
         (map (map (\<lambda>(group, params). (group, map entry_with_default_flags params))) param_groups) =
       allreduce_sequence_parallel_gradients param_groups"
  by (simp add: get_grad_norm_default_flags allreduce_sequence_parallel_default_flags
        param_is_not_shared_def is_tp_param_def collect_param_def no_grads_def
        sequence_parallel_grad_def getattr_default_def Let_def split: option.split)

section \<open>The infinity norm\<close>

text \<open>
  C1: the claim expects a MAX reduction over the explicit sharded-optimizer groups.  On two
  ranks with local maxima 5 and 3, zero1_optimizer on and the group [0, 1] supplied, the
  code issues \<^verbatim>\<open>xm.all_reduce\<close> with \<^verbatim>\<open>REDUCE_SUM\<close> (line 80) and every rank gets 8, the
  sum of the two maxima, where the maximum over the ranks is 5.
\<close>

theorem zero1_groups_reduce_with_sum:
  "get_grad_norm no_model_parallelism
     [[tp_param [5], replicated_param [-1] True], [tp_param [3], replicated_param [2] True]]
     Inf_norm True (Some [[0, 1]]) True
   = (Inr [Fin 8, Fin 8], [Xla_device, Xm_all_reduce Reduce_sum [[0, 1]] True])"
  by (simp add: example_defs norm_defs Let_def)

lemma abs_max_error: "abs_max g = Inl e \<Longrightarrow> e = MaxOfEmptyTensor"
  by (simp add: abs_max_def split: list.splits)

lemma max_from_error: "max_from m gs = Inl e \<Longrightarrow> e = MaxOfEmptyTensor"
  by (induction gs arbitrary: m) (auto split: sum.splits dest: abs_max_error)

lemma py_max_error: "py_max gs = Inl e \<Longrightarrow> e = MaxOfEmptySequence \<or> e = MaxOfEmptyTensor"
  by (auto simp: py_max_def split: list.splits sum.splits dest: abs_max_error max_from_error)

lemma py_max_Nil: "py_max [] = Inl MaxOfEmptySequence"
  by (simp add: py_max_def)

lemma py_max_Inr: "py_max gs = Inr v \<Longrightarrow> gs \<noteq> []"
  by (auto simp: py_max_def)

lemma local_inf_error:
  "local_total_norm tp Inf_norm fs ps = Inl e \<Longrightarrow> e = MaxOfEmptySequence \<or> e = MaxOfEmptyTensor"
  by (auto simp: local_total_norm_eq split: sum.splits dest: py_max_error)

lemma local_inf_Inr:
  "local_total_norm tp Inf_norm fs ps = Inr v \<Longrightarrow>
     grads_in Duplicated fs ps \<noteq> [] \<and> grads_in Partitioned fs ps \<noteq> []"
  by (auto simp: local_total_norm_eq split: sum.splits dest: py_max_Inr)

lemma local_inf_dup_empty:
  "grads_in Duplicated fs ps = [] \<Longrightarrow> local_total_norm tp Inf_norm fs ps = Inl MaxOfEmptySequence"
  by (simp add: local_total_norm_eq py_max_Nil)

lemma local_inf_empty:
  assumes "grads_in Duplicated fs ps = [] \<or> grads_in Partitioned fs ps = []"
  shows "local_total_norm tp Inf_norm fs ps = Inl MaxOfEmptySequence
         \<or> local_total_norm tp Inf_norm fs ps = Inl MaxOfEmptyTensor"
proof (cases "local_total_norm tp Inf_norm fs ps")
  case (Inl e)
  then show ?thesis using local_inf_error [of tp fs ps e] by auto
next
  case (Inr v)
  then show ?thesis using local_inf_Inr [of tp fs ps v] assms by auto
qed

lemma grads_in_empty:
  "(\<forall>p\<in>set ps. spec_bucket fs p \<noteq> k) \<Longrightarrow> grads_in k fs ps = []"
  by (induction ps) (auto simp: grads_in_Nil grads_in_Cons split: option.split)

lemma first_error_Inr: "first_error rs = Inr vs \<Longrightarrow> r \<in> set rs \<Longrightarrow> \<exists>v. r = Inr v"
  by (induction rs arbitrary: vs rule: first_error.induct) (auto split: sum.splits)

lemma first_error_Inr_length: "first_error rs = Inr vs \<Longrightarrow> length vs = length rs"
  by (induction rs arbitrary: vs rule: first_error.induct) (auto split: sum.splits)

lemma first_error_cases:
  "(\<exists>e. first_error rs = Inl e \<and> Inl e \<in> set rs) \<or> (\<exists>vs. first_error rs = Inr vs)"
  using first_error_Inl [of rs] by (cases "first_error rs") auto

lemma get_grad_norm_inf_cases:
  assumes "z \<or> zg = None"
  shows "(\<exists>e ps. ps \<in> set parameters \<and> local_total_norm (tp_size topo) Inf_norm True ps = Inl e
            \<and> get_grad_norm topo parameters Inf_norm z zg fs = (Inl e, [Xla_device]))
       \<or> ((\<forall>ps\<in>set parameters. \<exists>v. local_total_norm (tp_size topo) Inf_norm True ps = Inr v)
            \<and> (\<exists>vs evs. get_grad_norm topo parameters Inf_norm z zg fs = (Inr vs, evs)))"
proof (cases "first_error (map (local_total_norm (tp_size topo) Inf_norm True) parameters)")
  case (Inl e)
  from first_error_Inl [OF Inl] obtain ps where
    "ps \<in> set parameters" "local_total_norm (tp_size topo) Inf_norm True ps = Inl e"
    by auto
  moreover have "get_grad_norm topo parameters Inf_norm z zg fs = (Inl e, [Xla_device])"
    using assms Inl by (auto simp: get_grad_norm_def reduced_total_norm_def)
  ultimately show ?thesis by blast
next
  case (Inr vs)
  have "\<forall>ps\<in>set parameters. \<exists>v. local_total_norm (tp_size topo) Inf_norm True ps = Inr v"
    using first_error_Inr [OF Inr] by auto
  moreover have "\<exists>vs evs. get_grad_norm topo parameters Inf_norm z zg fs = (Inr vs, evs)"
    using assms Inr by (auto simp: get_grad_norm_def reduced_total_norm_def Let_def)
  ultimately show ?thesis by blast
qed


text \<open>
  C8: with the infinity norm, a rank whose duplicated bucket is empty raises the error of
  \<^verbatim>\<open>max\<close> on an empty sequence; this is the case when every parameter has no gradient, is
  shared or is tensor-model-parallel.  If the configuration is valid and some rank has an
  empty bucket, the call raises (the error of \<^verbatim>\<open>max\<close> on an empty sequence or, when a
  tensor without elements comes first, the error of its \<^verbatim>\<open>max()\<close>) after acquiring the device
  and before any collective.  Whenever the call returns a norm, both buckets of every rank
  are non-empty.
\<close>

theorem inf_norm_raises_on_empty_bucket:
  "(grads_for_norm_tp_duplicated (collect_grads True ps) = [] \<longrightarrow>
      local_total_norm tp Inf_norm True ps = Inl MaxOfEmptySequence)
   \<and> ((\<forall>p\<in>set ps. grad p = None \<or> \<not> param_is_not_shared p \<or> is_tp_param p) \<longrightarrow>
      local_total_norm tp Inf_norm True ps = Inl MaxOfEmptySequence)
   \<and> ((z \<or> zg = None) \<and> ps \<in> set parameters
        \<and> (grads_for_norm_tp_duplicated (collect_grads True ps) = []
             \<or> grads_for_norm (collect_grads True ps) = []) \<longrightarrow>
      get_grad_norm topo parameters Inf_norm z zg fs = (Inl MaxOfEmptySequence, [Xla_device])
      \<or> get_grad_norm topo parameters Inf_norm z zg fs = (Inl MaxOfEmptyTensor, [Xla_device]))
   \<and> (fst (get_grad_norm topo parameters Inf_norm z zg fs) = Inr vs \<longrightarrow>
        (\<forall>qs\<in>set parameters.
           grads_for_norm_tp_duplicated (collect_grads True qs) \<noteq> []
           \<and> grads_for_norm (collect_grads True qs) \<noteq> []))"
proof (intro conjI impI)
  assume "grads_for_norm_tp_duplicated (collect_grads True ps) = []"
  then show "local_total_norm tp Inf_norm True ps = Inl MaxOfEmptySequence"
    by (simp add: collect_grads_eq local_inf_dup_empty)
next
  assume "\<forall>p\<in>set ps. grad p = None \<or> \<not> param_is_not_shared p \<or> is_tp_param p"
  then have "\<forall>p\<in>set ps. spec_bucket True p \<noteq> Duplicated"
    by (auto simp: spec_bucket_def)
  then show "local_total_norm tp Inf_norm True ps = Inl MaxOfEmptySequence"
    by (simp add: grads_in_empty local_inf_dup_empty)
next
  assume a: "(z \<or> zg = None) \<and> ps \<in> set parameters
        \<and> (grads_for_norm_tp_duplicated (collect_grads True ps) = []
             \<or> grads_for_norm (collect_grads True ps) = [])"
  then have cfg: "z \<or> zg = None" and mem: "ps \<in> set parameters"
    and emp: "grads_in Duplicated True ps = [] \<or> grads_in Partitioned True ps = []"
    by (simp_all add: collect_grads_eq)
  from local_inf_empty [OF emp, of "tp_size topo"]
  have "\<not> (\<exists>v. local_total_norm (tp_size topo) Inf_norm True ps = Inr v)" by auto
  with get_grad_norm_inf_cases [OF cfg, of parameters topo fs] mem
  obtain e qs where "local_total_norm (tp_size topo) Inf_norm True qs = Inl e"
    and "get_grad_norm topo parameters Inf_norm z zg fs = (Inl e, [Xla_device])"
    by blast
  then show "get_grad_norm topo parameters Inf_norm z zg fs = (Inl MaxOfEmptySequence, [Xla_device])
      \<or> get_grad_norm topo parameters Inf_norm z zg fs = (Inl MaxOfEmptyTensor, [Xla_device])"
    using local_inf_error [of "tp_size topo" True qs e] by auto
next
  assume r: "fst (get_grad_norm topo parameters Inf_norm z zg fs) = Inr vs"
  have cfg: "z \<or> zg = None"
  proof (rule ccontr)
    assume "\<not> (z \<or> zg = None)"
    then have "get_grad_norm topo parameters Inf_norm z zg fs = (Inl InvalidConfiguration, [])"
      by (auto simp: get_grad_norm_def reduced_total_norm_def)
    with r show False by simp
  qed
  from get_grad_norm_inf_cases [OF cfg, of parameters topo fs] r
  have "\<forall>qs\<in>set parameters. \<exists>v. local_total_norm (tp_size topo) Inf_norm True qs = Inr v"
    by auto
  then show "\<forall>qs\<in>set parameters.
           grads_for_norm_tp_duplicated (collect_grads True qs) \<noteq> []
           \<and> grads_for_norm (collect_grads True qs) \<noteq> []"
    using local_inf_Inr [of "tp_size topo" True] by (auto simp: collect_grads_eq)
qed

theorem inf_norm_raises_on_empty_bucket_witness:
  "grads_for_norm_tp_duplicated (collect_grads True [tp_param [1]]) = []
   \<and> local_total_norm 1 Inf_norm True [tp_param [1]] = Inl MaxOfEmptySequence
   \<and> get_grad_norm no_model_parallelism [[tp_param [1]]] Inf_norm False None False
       = (Inl MaxOfEmptySequence, [Xla_device])
   \<and> get_grad_norm no_model_parallelism [[tp_param [3], replicated_param [-5, 2] True]]
       Inf_norm False None False = (Inr [Fin 5], [Xla_device])
   \<and> grads_for_norm_tp_duplicated (collect_grads True [tp_param [3], replicated_param [-5, 2] True]) = [[-5, 2]]
   \<and> grads_for_norm (collect_grads True [tp_param [3], replicated_param [-5, 2] True]) = [[3]]"
  using inf_norm_raises_on_empty_bucket
          [of "[tp_param [1]]" 1 False None "[[tp_param [1]]]" no_model_parallelism False "[Fin 5]"]
        inf_norm_raises_on_empty_bucket
          [of "[tp_param [3], replicated_param [-5, 2] True]" 1 False None
              "[[tp_param [3], replicated_param [-5, 2] True]]" no_model_parallelism False "[Fin 5]"]
  by (simp add: example_defs norm_defs Let_def)

section \<open>The p-norms\<close>

lemma xnonneg_xpow: "xnonneg (xpow a e)"
  by (cases a) simp_all

lemma xnonneg_xadd: "xnonneg a \<Longrightarrow> xnonneg b \<Longrightarrow> xnonneg (xadd a b)"
  by (cases a; cases b) simp_all

lemma xadd_assoc: "xadd (xadd a b) c = xadd a (xadd b c)"
  by (cases a; cases b; cases c) simp_all

lemma xadd_zero: "xadd (Fin 0) a = a"
  by (cases a) simp_all

lemma xsum_Nil: "xsum [] = Fin 0"
  by (simp add: xsum_def)

lemma xsum_Cons: "xsum (x # xs) = xadd x (xsum xs)"
  by (simp add: xsum_def)

lemma xnonneg_xsum: "(\<And>x. x \<in> set xs \<Longrightarrow> xnonneg x) \<Longrightarrow> xnonneg (xsum xs)"
  by (induction xs) (simp_all add: xsum_Nil xsum_Cons xnonneg_xadd)

lemma xpow_root_pow:
  assumes "e \<noteq> 0" and "xnonneg s"
  shows "xpow (xpow s (1 / e)) e = s"
proof (cases s)
  case PInf
  then show ?thesis using assms(1) by (simp add: divide_less_0_iff)
next
  case (Fin a)
  show ?thesis
  proof (cases "a = 0")
    case True
    then show ?thesis using Fin assms(1) by (simp add: divide_less_0_iff)
  next
    case False
    with Fin assms(2) have pos: "0 < a" by simp
    then have "a powr (1 / e) \<noteq> 0" by simp
    moreover have "(a powr (1 / e)) powr e = a" using pos assms(1) by (simp add: powr_powr)
    ultimately show ?thesis using Fin False assms(1) by simp
  qed
qed

lemma torch_norm_pow:
  assumes "p \<noteq> 0"
  shows "xpow (torch_norm g p) p = xsum (map (\<lambda>x. xpow (Fin \<bar>x\<bar>) p) g)"
proof -
  have "xnonneg (xsum (map (\<lambda>x. xpow (Fin \<bar>x\<bar>) p) g))"
    by (rule xnonneg_xsum) (auto simp: xnonneg_xpow)
  then show ?thesis
    using assms by (simp add: torch_norm_def xpow_root_pow)
qed

lemma spec_pow_sum_Cons:
  "spec_pow_sum p (g # gs) = xadd (xsum (map (\<lambda>x. xpow (Fin \<bar>x\<bar>) p) g)) (spec_pow_sum p gs)"
  by (simp add: spec_pow_sum_def xsum_Cons)

lemma add_pow_norms_Cons:
  "add_pow_norms p t (g # gs) = add_pow_norms p (xadd t (xpow (torch_norm g p) p)) gs"
  by (simp add: add_pow_norms_def)

lemma add_pow_norms_eq:
  assumes "p \<noteq> 0"
  shows "add_pow_norms p t gs = xadd t (spec_pow_sum p gs)"
proof (induction gs arbitrary: t)
  case Nil
  show ?case by (cases t) (simp_all add: add_pow_norms_def spec_pow_sum_def xsum_Nil)
next
  case (Cons g gs)
  have "add_pow_norms p t (g # gs) = add_pow_norms p (xadd t (xpow (torch_norm g p) p)) gs"
    by (rule add_pow_norms_Cons)
  also have "\<dots> = xadd (xadd t (xpow (torch_norm g p) p)) (spec_pow_sum p gs)"
    by (rule Cons.IH)
  also have "\<dots> = xadd t (spec_pow_sum p (g # gs))"
    by (simp add: torch_norm_pow [OF assms] spec_pow_sum_Cons xadd_assoc)
  finally show ?case .
qed

lemma local_total_norm_p:
  assumes "p \<noteq> 0"
  shows "local_total_norm tp (P_norm p) True ps = Inr (spec_local_sum tp p ps)"
  by (simp add: local_total_norm_def spec_local_sum_def add_pow_norms_eq [OF assms] xadd_zero
        Let_def)

lemma first_error_map_Inr: "first_error (map (\<lambda>x. Inr (f x)) xs) = Inr (map f xs)"
  by (induction xs) simp_all

lemma reduced_total_norm_p:
  assumes "p \<noteq> 0"
  shows "reduced_total_norm topo parameters (P_norm p) z zg True =
     (if \<not> z \<and> zg \<noteq> None then (Inl InvalidConfiguration, [])
      else (Inr (fst (allreduce_norm_across_parallel_groups topo z zg Reduce_sum
                        (map (spec_local_sum (tp_size topo) p) parameters, [Xla_device]))),
            snd (allreduce_norm_across_parallel_groups topo z zg Reduce_sum
                        (map (spec_local_sum (tp_size topo) p) parameters, [Xla_device]))))"
proof -
  have eq: "map (local_total_norm (tp_size topo) (P_norm p) True) parameters =
        map (\<lambda>ps. Inr (spec_local_sum (tp_size topo) p ps)) parameters"
    using assms by (simp add: local_total_norm_p)
  show ?thesis
    by (simp add: reduced_total_norm_def eq first_error_map_Inr reduce_op_of_def Let_def)
qed

lemma get_grad_norm_p:
  assumes "p \<noteq> 0"
  shows "get_grad_norm topo parameters (P_norm p) z zg fs =
     (case reduced_total_norm topo parameters (P_norm p) z zg fs of
        (Inl e, evs) \<Rightarrow> (Inl e, evs)
      | (Inr total_norm, evs) \<Rightarrow> (Inr (map (\<lambda>t. xpow t (1 / p)) total_norm), evs))"
  using assms by (simp add: get_grad_norm_def split: prod.split sum.split)

lemma all_reduce_world:
  "all_reduce Reduce_sum [[0..<length vals]] vals = replicate (length vals) (xsum vals)"
proof -
  have "map (\<lambda>i. vals ! i) (filter (\<lambda>i. i < length vals) [0..<length vals]) = vals"
    by (simp add: map_nth)
  then have "all_reduce Reduce_sum [[0..<length vals]] vals =
      map (\<lambda>r. xsum vals) [0..<length vals]"
    by (simp add: all_reduce_def cong: map_cong)
  then show ?thesis by (simp add: map_replicate_const)
qed

lemma allreduce_norm_events:
  "list_all (\<lambda>e. event_op e \<noteq> Some Reduce_max) (snd st) \<Longrightarrow>
   list_all (\<lambda>e. event_op e \<noteq> Some Reduce_max)
     (snd (allreduce_norm_across_parallel_groups topo z zg Reduce_sum st))"
  by (auto simp: allreduce_norm_across_parallel_groups_def dist_all_reduce_def xm_all_reduce_def
        event_op_def Let_def split: option.split)

lemma example_v:
  "reduced_total_norm tp_degree_two [[replicated_param [v] True], [replicated_param [v] False]]
      (P_norm 2) False None True
   = (Inr [Fin (v\<^sup>2), Fin (v\<^sup>2)], [Xla_device, Dist_all_reduce Reduce_sum Tensor_parallel])"
  by (simp add: reduced_total_norm_p tp_degree_two_def spec_local_sum_def spec_pow_sum_def
        collect_grads_eq grads_in_Cons grads_in_Nil spec_bucket_def replicated_param_def
        param_is_not_shared_def is_tp_param_def allreduce_norm_across_parallel_groups_def
        dist_all_reduce_def all_reduce_def axis_groups_def xsum_def Let_def)

text \<open>
  C2, as amended: for a p-norm with \<open>p \<noteq> 0\<close> and force_spmd on, every rank contributes the
  sum of \<open>|x|^p\<close> over its duplicated bucket divided by the tensor-parallel size plus the sum
  of \<open>|x|^p\<close> over its partitioned bucket; these contributions are SUM-reduced across the
  selected groups (no collective of the call is a MAX reduction, and over the world group
  every rank gets the sum of the contributions of all ranks), and the root \<open>1/p\<close> is taken
  of the reduced value only.  With tensor-parallel degree 2 and the same replicated
  gradient \<open>v\<close> on both ranks the reduced squared sum is \<open>v\<^sup>2\<close> (not \<open>2 * v\<^sup>2\<close>) and the norm
  is \<open>|v|\<close>.
\<close>

theorem p_norm_sum_then_root:
  assumes "p \<noteq> 0"
  shows "reduced_total_norm topo parameters (P_norm p) z zg True =
     (if \<not> z \<and> zg \<noteq> None then (Inl InvalidConfiguration, [])
      else (Inr (fst (allreduce_norm_across_parallel_groups topo z zg Reduce_sum
                        (map (spec_local_sum (tp_size topo) p) parameters, [Xla_device]))),
            snd (allreduce_norm_across_parallel_groups topo z zg Reduce_sum
                        (map (spec_local_sum (tp_size topo) p) parameters, [Xla_device]))))
   \<and> get_grad_norm topo parameters (P_norm p) z zg True =
     (case reduced_total_norm topo parameters (P_norm p) z zg True of
        (Inl e, evs) \<Rightarrow> (Inl e, evs)
      | (Inr total_norm, evs) \<Rightarrow> (Inr (map (\<lambda>t. xpow t (1 / p)) total_norm), evs))
   \<and> list_all (\<lambda>e. event_op e \<noteq> Some Reduce_max)
        (snd (get_grad_norm topo parameters (P_norm p) z zg True))
   \<and> (z \<and> zg = None \<longrightarrow>
        fst (reduced_total_norm topo parameters (P_norm p) z zg True) =
          Inr (replicate (length parameters)
                 (xsum (map (spec_local_sum (tp_size topo) p) parameters))))
   \<and> reduced_total_norm tp_degree_two [[replicated_param [v] True], [replicated_param [v] False]]
        (P_norm 2) False None True
      = (Inr [Fin (v\<^sup>2), Fin (v\<^sup>2)], [Xla_device, Dist_all_reduce Reduce_sum Tensor_parallel])
   \<and> get_grad_norm tp_degree_two [[replicated_param [v] True], [replicated_param [v] False]]
        (P_norm 2) False None True
      = (Inr [Fin \<bar>v\<bar>, Fin \<bar>v\<bar>], [Xla_device, Dist_all_reduce Reduce_sum Tensor_parallel])"
proof -
  let ?vals = "map (spec_local_sum (tp_size topo) p) parameters"
  let ?st = "allreduce_norm_across_parallel_groups topo z zg Reduce_sum (?vals, [Xla_device])"
  note r = reduced_total_norm_p [OF assms, of topo parameters z zg]
  note g = get_grad_norm_p [OF assms, of topo parameters z zg True]
  have ev: "list_all (\<lambda>e. event_op e \<noteq> Some Reduce_max) (snd ?st)"
    by (rule allreduce_norm_events) (simp add: event_op_def)
  have evs: "list_all (\<lambda>e. event_op e \<noteq> Some Reduce_max)
        (snd (get_grad_norm topo parameters (P_norm p) z zg True))"
    using ev by (simp add: g r)
  have world: "fst (reduced_total_norm topo parameters (P_norm p) z zg True) =
          Inr (replicate (length parameters) (xsum ?vals))" if "z \<and> zg = None"
  proof -
    from that have z: "z = True" and zg: "zg = None" by simp_all
    show ?thesis
      unfolding z zg
      using all_reduce_world [of ?vals]
      by (simp add: reduced_total_norm_p [OF assms, of topo parameters True None]
            allreduce_norm_across_parallel_groups_def dist_all_reduce_def axis_groups_def)
  qed
  have root: "xpow (Fin (v\<^sup>2)) (1 / 2) = Fin \<bar>v\<bar>"
    by (simp add: powr_half_sqrt)
  have ex: "get_grad_norm tp_degree_two [[replicated_param [v] True], [replicated_param [v] False]]
        (P_norm 2) False None True
      = (Inr [Fin \<bar>v\<bar>, Fin \<bar>v\<bar>], [Xla_device, Dist_all_reduce Reduce_sum Tensor_parallel])"
    by (simp add: get_grad_norm_p example_v root del: xpow.simps)
  show ?thesis
    using r g evs world example_v ex by blast
qed

theorem p_norm_sum_then_root_witness:
  "(2::real) \<noteq> 0
   \<and> reduced_total_norm tp_degree_two [[replicated_param [3] True], [replicated_param [3] False]]
        (P_norm 2) False None True
      = (Inr [Fin 9, Fin 9], [Xla_device, Dist_all_reduce Reduce_sum Tensor_parallel])
   \<and> get_grad_norm tp_degree_two [[replicated_param [3] True], [replicated_param [3] False]]
        (P_norm 2) False None True
      = (Inr [Fin 3, Fin 3], [Xla_device, Dist_all_reduce Reduce_sum Tensor_parallel])
   \<and> fst (reduced_total_norm tp_degree_two
             [[replicated_param [3] True], [replicated_param [3] False]] (P_norm 2) True None True)
      = Inr [Fin 9, Fin 9]
   \<and> (-1::real) \<noteq> 0
   \<and> spec_local_sum 1 (-1) [tp_param [0, 1]] = PInf
   \<and> get_grad_norm no_model_parallelism [[tp_param [0, 1]]] (P_norm (-1)) False None True
      = (Inr [Fin 0], [Xla_device])"
proof -
  have h: "(2::real) \<noteq> 0" by simp
  note w = p_norm_sum_then_root [OF h, where topo = tp_degree_two and z = True and zg = None
             and parameters = "[[replicated_param [3] True], [replicated_param [3] False]]"]
  have sl: "map (spec_local_sum (tp_size tp_degree_two) 2)
              [[replicated_param [3] True], [replicated_param [3] False]] = [Fin (9 / 2), Fin (9 / 2)]"
    by (simp add: spec_local_sum_def spec_pow_sum_def tp_degree_two_def example_defs norm_defs
          Let_def)
  from w have "fst (reduced_total_norm tp_degree_two
             [[replicated_param [3] True], [replicated_param [3] False]] (P_norm 2) True None True)
      = Inr (replicate (length [[replicated_param [3] True], [replicated_param [3] False]])
               (xsum (map (spec_local_sum (tp_size tp_degree_two) 2)
                  [[replicated_param [3] True], [replicated_param [3] False]])))"
    by blast
  then have wd: "fst (reduced_total_norm tp_degree_two
             [[replicated_param [3] True], [replicated_param [3] False]] (P_norm 2) True None True)
      = Inr [Fin 9, Fin 9]"
    unfolding sl by (simp add: xsum_def)
  note t = p_norm_sum_then_root [OF h, where v = 3 and topo = tp_degree_two and z = False
             and zg = None]
  from t have
    a: "reduced_total_norm tp_degree_two [[replicated_param [3] True], [replicated_param [3] False]]
        (P_norm 2) False None True
      = (Inr [Fin (3\<^sup>2), Fin (3\<^sup>2)], [Xla_device, Dist_all_reduce Reduce_sum Tensor_parallel])"
    and
    b: "get_grad_norm tp_degree_two [[replicated_param [3] True], [replicated_param [3] False]]
        (P_norm 2) False None True
      = (Inr [Fin \<bar>3\<bar>, Fin \<bar>3\<bar>], [Xla_device, Dist_all_reduce Reduce_sum Tensor_parallel])"
    by blast+
  have n: "(-1::real) \<noteq> 0" by simp
  have s: "spec_local_sum 1 (-1) [tp_param [0, 1]] = PInf"
    by (simp add: spec_local_sum_def spec_pow_sum_def example_defs norm_defs Let_def)
  note u = p_norm_sum_then_root [OF n, where topo = no_model_parallelism and z = False
             and zg = None and parameters = "[[tp_param [0, 1]]]"]
  from u have
    c: "reduced_total_norm no_model_parallelism [[tp_param [0, 1]]] (P_norm (-1)) False None True =
         (Inr (fst (allreduce_norm_across_parallel_groups no_model_parallelism False None Reduce_sum
                        (map (spec_local_sum (tp_size no_model_parallelism) (-1)) [[tp_param [0, 1]]],
                         [Xla_device]))),
            snd (allreduce_norm_across_parallel_groups no_model_parallelism False None Reduce_sum
                        (map (spec_local_sum (tp_size no_model_parallelism) (-1)) [[tp_param [0, 1]]],
                         [Xla_device])))"
    and
    d: "get_grad_norm no_model_parallelism [[tp_param [0, 1]]] (P_norm (-1)) False None True =
     (case reduced_total_norm no_model_parallelism [[tp_param [0, 1]]] (P_norm (-1)) False None True of
        (Inl e, evs) \<Rightarrow> (Inl e, evs)
      | (Inr total_norm, evs) \<Rightarrow> (Inr (map (\<lambda>t. xpow t (1 / (-1))) total_norm), evs))"
    by simp_all
  have tp1: "tp_size no_model_parallelism = 1" by (simp add: no_model_parallelism_def)
  have s': "spec_local_sum (Suc 0) (-1) [tp_param [0, 1]] = PInf" using s by simp
  have e: "get_grad_norm no_model_parallelism [[tp_param [0, 1]]] (P_norm (-1)) False None True
      = (Inr [Fin 0], [Xla_device])"
    unfolding d c tp1
    by (simp add: s s' allreduce_norm_across_parallel_groups_def no_model_parallelism_def)
  from a b wd h n s e show ?thesis by simp
qed

text \<open>
  C2, as the claim states it, fails for the finite norm type 0: the sums are reduced, and
  then \<^verbatim>\<open>1.0 / norm_type\<close> at line 136 raises \<^verbatim>\<open>ZeroDivisionError\<close>; no norm is returned.
\<close>

theorem p_norm_zero_raises:
  "get_grad_norm tp_degree_two [[replicated_param [3] True], [replicated_param [3] False]]
     (P_norm 0) False None True
   = (Inl ZeroDivisionError, [Xla_device, Dist_all_reduce Reduce_sum Tensor_parallel])"
  by (simp add: example_defs tp_degree_two_def norm_defs add_pow_norms_def torch_norm_def Let_def)

section \<open>Clipping\<close>

lemma all_reduce_length: "length (all_reduce rop groups vals) = length vals"
  by (simp add: all_reduce_def)

lemma allreduce_norm_length:
  "length (fst (allreduce_norm_across_parallel_groups topo z zg rop st)) = length (fst st)"
  by (simp add: allreduce_norm_across_parallel_groups_def dist_all_reduce_def xm_all_reduce_def
        all_reduce_length Let_def split: option.split)

lemma xpow_Fin_nonneg: "xpow s e = Fin t \<Longrightarrow> 0 \<le> t"
  by (cases s) (auto split: if_splits)

lemma get_grad_norm_p_Inr:
  assumes "fst (get_grad_norm topo parameters (P_norm p) z zg fs) = Inr tn"
  shows "length tn = length parameters"
    and "r < length tn \<Longrightarrow> tn ! r = Fin t \<Longrightarrow> 0 \<le> t"
proof -
  from assms obtain red where
    r: "fst (reduced_total_norm topo parameters (P_norm p) z zg fs) = Inr red"
    and tn: "tn = map (\<lambda>t. xpow t (1 / p)) red"
    by (auto simp: get_grad_norm_def split: prod.splits sum.splits if_splits)
  from r obtain vals where
    v: "first_error (map (local_total_norm (tp_size topo) (P_norm p) fs) parameters) = Inr vals"
    and red: "red = fst (allreduce_norm_across_parallel_groups topo z zg Reduce_sum
                 (vals, [Xla_device]))"
    by (auto simp: reduced_total_norm_def reduce_op_of_def Let_def split: if_splits sum.splits)
  from first_error_Inr_length [OF v] red tn show "length tn = length parameters"
    by (simp add: allreduce_norm_length)
  show "0 \<le> t" if "r < length tn" and "tn ! r = Fin t"
    using that tn xpow_Fin_nonneg [of "red ! r" "1 / p" t] by simp
qed

lemma mul_grad_one: "mul_grad 1 p = p"
  by (cases "grad p") (simp_all add: mul_grad_def)

lemma scale_rank_min:
  "scale_rank max_norm tn ps = map (mul_grad (min (clip_coeff_of max_norm tn) 1)) ps"
  by (simp add: scale_rank_def Let_def min_def not_less)

lemma clip_coeff_ge_one:
  assumes "0 \<le> t" and "t + 1 / 1000000 \<le> max_norm"
  shows "min (clip_coeff_of max_norm (Fin t)) 1 = 1"
proof -
  have "0 < t + 1 / 1000000" using assms(1) by simp
  then have "1 \<le> max_norm / (t + 1 / 1000000)" using assms(2) by (simp add: le_divide_eq)
  then show ?thesis by (simp add: clip_coeff_of_def)
qed

lemma scale_rank_id:
  assumes "0 \<le> t" and "t + 1 / 1000000 \<le> max_norm"
  shows "scale_rank max_norm (Fin t) ps = ps"
proof -
  have "map (mul_grad 1) ps = ps" by (induction ps) (simp_all add: mul_grad_one)
  then show ?thesis by (simp add: scale_rank_min clip_coeff_ge_one [OF assms])
qed

text \<open>
  C7, as amended: for a p-norm, when \<^verbatim>\<open>get_grad_norm\<close> returns the total norm,
  \<^verbatim>\<open>clip_grad_norm\<close> returns that same unclipped norm and multiplies every gradient that is
  present by \<open>min (max_norm / (total_norm + 1e-6)) 1\<close>, whatever the shared, tensor-parallel or
  duplicate flags are; the flags and absent gradients stay as they are.  Whenever
  \<open>total_norm + 1e-6 \<le> max_norm\<close> the factor is 1 and the gradients are unchanged.
\<close>

theorem clip_grad_norm_scales_present_gradients:
  "(fst (get_grad_norm topo parameters (P_norm p) z zg fs) = Inr total_norm \<longrightarrow>
      fst (fst (clip_grad_norm topo parameters max_norm (P_norm p) z zg fs)) = Inr total_norm
      \<and> length total_norm = length parameters
      \<and> snd (clip_grad_norm topo parameters max_norm (P_norm p) z zg fs) =
          map2 (\<lambda>tn ps. map (mul_grad (min (clip_coeff_of max_norm tn) 1)) ps)
            total_norm parameters
      \<and> (\<forall>r<length parameters. \<forall>t. total_norm ! r = Fin t \<and> t + 1 / 1000000 \<le> max_norm \<longrightarrow>
            min (clip_coeff_of max_norm (total_norm ! r)) 1 = 1
            \<and> snd (clip_grad_norm topo parameters max_norm (P_norm p) z zg fs) ! r = parameters ! r))
   \<and> clip_coeff_of max_norm (Fin t') = max_norm / (t' + 1 / 1000000)
   \<and> grad (mul_grad c q) = map_option (map (\<lambda>x. x * c)) (grad q)
   \<and> shared (mul_grad c q) = shared q
   \<and> tensor_model_parallel (mul_grad c q) = tensor_model_parallel q
   \<and> not_tp_duplicate (mul_grad c q) = not_tp_duplicate q"
proof (intro conjI impI allI)
  assume g: "fst (get_grad_norm topo parameters (P_norm p) z zg fs) = Inr total_norm"
  then obtain evs where ge: "get_grad_norm topo parameters (P_norm p) z zg fs = (Inr total_norm, evs)"
    by (cases "get_grad_norm topo parameters (P_norm p) z zg fs") auto
  note len = get_grad_norm_p_Inr(1) [OF g]
  have clip: "clip_grad_norm topo parameters max_norm (P_norm p) z zg fs =
      ((Inr total_norm, evs @ [Xla_device]), map2 (scale_rank max_norm) total_norm parameters)"
    by (simp add: clip_grad_norm_def ge)
  show "fst (fst (clip_grad_norm topo parameters max_norm (P_norm p) z zg fs)) = Inr total_norm"
    by (simp add: clip)
  show "length total_norm = length parameters" by (rule len)
  show "snd (clip_grad_norm topo parameters max_norm (P_norm p) z zg fs) =
          map2 (\<lambda>tn ps. map (mul_grad (min (clip_coeff_of max_norm tn) 1)) ps)
            total_norm parameters"
    by (simp add: clip scale_rank_min)
  fix r t
  assume r: "r < length parameters"
    and le: "total_norm ! r = Fin t \<and> t + 1 / 1000000 \<le> max_norm"
  from get_grad_norm_p_Inr(2) [OF g, of r t] r len le have nn: "0 \<le> t" by simp
  from le have le': "t + 1 / 1000000 \<le> max_norm" by simp
  show "min (clip_coeff_of max_norm (total_norm ! r)) 1 = 1"
    using le clip_coeff_ge_one [OF nn le'] by simp
  show "snd (clip_grad_norm topo parameters max_norm (P_norm p) z zg fs) ! r = parameters ! r"
    using r len le by (simp add: clip scale_rank_id [OF nn le'])
qed (simp_all add: mul_grad_def clip_coeff_of_def split: option.split)

theorem clip_grad_norm_scales_present_gradients_witness:
  "fst (get_grad_norm no_model_parallelism [[tp_param [1]]] (P_norm 1) False None True) = Inr [Fin 1]
   \<and> (0::nat) < length [[tp_param [1]]]
   \<and> (1::real) + 1 / 1000000 \<le> 2
   \<and> fst (fst (clip_grad_norm no_model_parallelism [[tp_param [1]]] 2 (P_norm 1) False None True))
        = Inr [Fin 1]
   \<and> snd (clip_grad_norm no_model_parallelism [[tp_param [1]]] 2 (P_norm 1) False None True) ! 0
        = [tp_param [1]]"
  using clip_grad_norm_scales_present_gradients
          [of no_model_parallelism "[[tp_param [1]]]" 1 False None True "[Fin 1]" 2]
  by (simp add: clip_grad_norm_def scale_rank_def clip_coeff_of_def mul_grad_def example_defs
        norm_defs add_pow_norms_def torch_norm_def Let_def)

text \<open>
  C7, as the claim states it, fails in two ways.  One rank, one gradient \<open>[1e-6]\<close>, the
  1-norm and \<open>max_norm = 1e-6\<close>: the total norm \<open>1e-6\<close> is not above \<open>max_norm\<close>, yet the
  coefficient is \<open>1e-6 / 2e-6 = 1/2\<close> and the gradient is halved.  With the infinity norm the
  call raises at line 189 and neither scales a gradient nor returns the norm.
\<close>

theorem clip_grad_norm_changes_gradient_at_max_norm:
  "fst (get_grad_norm no_model_parallelism [[tp_param [1 / 1000000]]] (P_norm 1) False None True)
     = Inr [Fin (1 / 1000000)]
   \<and> (1 / 1000000 :: real) \<le> 1 / 1000000
   \<and> min (clip_coeff_of (1 / 1000000) (Fin (1 / 1000000))) 1 = 1 / 2
   \<and> snd (clip_grad_norm no_model_parallelism [[tp_param [1 / 1000000]]] (1 / 1000000) (P_norm 1)
            False None True)
        = [[tp_param [1 / 2000000]]]
   \<and> snd (clip_grad_norm no_model_parallelism [[tp_param [1 / 1000000]]] (1 / 1000000) (P_norm 1)
            False None True)
        \<noteq> [[tp_param [1 / 1000000]]]
   \<and> clip_grad_norm no_model_parallelism [[tp_param [3], replicated_param [-5, 2] True]] 10
        Inf_norm False None True
      = ((Inl TypeError, [Xla_device, Xla_device]),
         [[tp_param [3], replicated_param [-5, 2] True]])"
  by (simp add: clip_grad_norm_def scale_rank_def clip_coeff_of_def mul_grad_def has_grads_def
        example_defs norm_defs add_pow_norms_def torch_norm_def Let_def)

section \<open>Bucketed all-reduce: flush order\<close>

lemma grad_bytes_div_data: "grad_bytes (div_data dp g) = grad_bytes g"
  by (simp add: grad_bytes_def div_data_def)

lemma grad_bytes_nonneg: "0 \<le> grad_bytes g"
  by (simp add: grad_bytes_def)

lemma sum_bytes_nonneg: "0 \<le> sum_list (map grad_bytes c)"
  by (induction c) (simp_all add: grad_bytes_nonneg add_nonneg_nonneg)

lemma bucket_step_concat:
  "concat (flushed (bucket_step cap dp st g)) @ tensor_bucket (bucket_step cap dp st g) =
   concat (flushed st) @ tensor_bucket st @ [div_data dp g]"
  by (simp add: bucket_step_def Let_def)

lemma foldl_bucket_step_concat:
  "concat (flushed (foldl (bucket_step cap dp) st gs)) @
     tensor_bucket (foldl (bucket_step cap dp) st gs) =
   concat (flushed st) @ tensor_bucket st @ map (div_data dp) gs"
proof (induction gs arbitrary: st)
  case Nil
  show ?case by simp
next
  case (Cons g gs)
  have "concat (flushed (foldl (bucket_step cap dp) st (g # gs))) @
          tensor_bucket (foldl (bucket_step cap dp) st (g # gs)) =
        concat (flushed (bucket_step cap dp st g)) @ tensor_bucket (bucket_step cap dp st g)
          @ map (div_data dp) gs"
    using Cons.IH [of "bucket_step cap dp st g"] by simp
  also have "\<dots> = (concat (flushed (bucket_step cap dp st g)) @ tensor_bucket (bucket_step cap dp st g))
          @ map (div_data dp) gs"
    by simp
  also have "\<dots> = concat (flushed st) @ tensor_bucket st @ map (div_data dp) (g # gs)"
    by (simp only: bucket_step_concat) simp
  finally show ?case .
qed

lemma bucket_dtype_group_concat:
  "concat (bucket_dtype_group cap dp gs) = map (div_data dp) (rev gs)"
proof -
  let ?st = "foldl (bucket_step cap dp) \<lparr>total_bytes = 0, tensor_bucket = [], flushed = []\<rparr> (rev gs)"
  have c: "concat (flushed ?st) @ tensor_bucket ?st = map (div_data dp) (rev gs)"
    using foldl_bucket_step_concat
            [of cap dp "\<lparr>total_bytes = 0, tensor_bucket = [], flushed = []\<rparr>" "rev gs"]
    by simp
  show ?thesis
  proof (cases "tensor_bucket ?st = []")
    case True
    then show ?thesis using c by (simp add: bucket_dtype_group_def Let_def)
  next
    case False
    then show ?thesis using c by (simp add: bucket_dtype_group_def Let_def)
  qed
qed

lemma bucket_step_inv:
  assumes "bucket_inv cap st"
  shows "bucket_inv cap (bucket_step cap dp st g)"
proof -
  let ?g = "div_data dp g"
  from assms have
    tot: "total_bytes st = sum_list (map grad_bytes (tensor_bucket st))"
    and le: "tensor_bucket st = [] \<or> total_bytes st \<le> cap"
    and fl: "list_all (call_ok cap) (flushed st)"
    unfolding bucket_inv_def by blast+
  show ?thesis
  proof (cases "grad_bytes ?g > cap")
    case True
    then show ?thesis
      using tot le fl
      by (auto simp: bucket_step_def Let_def bucket_inv_def call_ok_def)
  next
    case False
    show ?thesis
    proof (cases "total_bytes st + grad_bytes ?g > cap")
      case over: True
      with False have "0 < total_bytes st" by simp
      with tot have "tensor_bucket st \<noteq> []" by auto
      with le have "call_ok cap (tensor_bucket st)" using tot by (auto simp: call_ok_def)
      then show ?thesis
        using False over fl
        by (simp add: bucket_step_def Let_def bucket_inv_def)
    next
      case fits: False
      then show ?thesis
        using False tot fl
        by (simp add: bucket_step_def Let_def bucket_inv_def)
    qed
  qed
qed

lemma foldl_bucket_step_inv:
  "bucket_inv cap st \<Longrightarrow> bucket_inv cap (foldl (bucket_step cap dp) st gs)"
  by (induction gs arbitrary: st) (simp_all add: bucket_step_inv)

lemma bucket_dtype_group_calls:
  "list_all (call_ok cap) (bucket_dtype_group cap dp gs)"
proof -
  let ?st = "foldl (bucket_step cap dp) \<lparr>total_bytes = 0, tensor_bucket = [], flushed = []\<rparr> (rev gs)"
  have "bucket_inv cap \<lparr>total_bytes = 0, tensor_bucket = [], flushed = []\<rparr>"
    by (simp add: bucket_inv_def)
  then have "bucket_inv cap ?st" by (rule foldl_bucket_step_inv)
  then show ?thesis
    by (auto simp: bucket_dtype_group_def Let_def bucket_inv_def call_ok_def)
qed

lemma call_ok_oversized:
  assumes "call_ok cap c" and "g \<in> set c" and "cap < grad_bytes g"
  shows "c = [g]"
proof -
  have "grad_bytes g \<le> sum_list (map grad_bytes c)"
    using assms(2) by (induction c) (auto simp: sum_bytes_nonneg grad_bytes_nonneg add_increasing add_increasing2)
  with assms(3) have "\<not> sum_list (map grad_bytes c) \<le> cap" by simp
  with assms(1) have "length c = 1" by (simp add: call_ok_def)
  with assms(2) show ?thesis by (cases c) auto
qed


lemma add_to_dtype_group_same:
  "dtype g = tp \<Longrightarrow> add_to_dtype_group [(tp, acc)] g = [(tp, acc @ [g])]"
  by (simp add: add_to_dtype_group_def)

lemma foldl_add_to_dtype_group_same:
  "\<forall>g\<in>set gs. dtype g = tp \<Longrightarrow> foldl add_to_dtype_group [(tp, acc)] gs = [(tp, acc @ gs)]"
  by (induction gs arbitrary: acc) (simp_all add: add_to_dtype_group_same)

lemma dtype_groups_of_same:
  assumes "\<forall>g\<in>set gs. dtype g = tp"
  shows "dtype_groups_of gs = (if gs = [] then [] else [(tp, gs)])"
proof (cases gs)
  case Nil
  then show ?thesis by (simp add: dtype_groups_of_def)
next
  case (Cons g rest)
  with assms have "dtype g = tp" and r: "\<forall>g\<in>set rest. dtype g = tp" by simp_all
  then have "add_to_dtype_group [] g = [(tp, [g])]" by (simp add: add_to_dtype_group_def)
  then show ?thesis
    using Cons foldl_add_to_dtype_group_same [OF r, of "[g]"] by (simp add: dtype_groups_of_def)
qed

lemma bucket_dtype_group_Nil: "bucket_dtype_group cap dp [] = []"
  by (simp add: bucket_dtype_group_def)

lemma bucket_allreduce_gradients_same:
  "\<forall>g\<in>set gs. dtype g = tp \<Longrightarrow>
     bucket_allreduce_gradients env dp gs = bucket_dtype_group (bucket_cap_bytes env) dp gs"
  using dtype_groups_of_same [of gs tp]
  by (simp add: bucket_allreduce_gradients_def bucket_dtype_group_Nil)

lemma bucket_allreduce_gradients_calls:
  "list_all (call_ok (bucket_cap_bytes env)) (bucket_allreduce_gradients env dp gs)"
  by (auto simp: bucket_allreduce_gradients_def list_all_iff
        bucket_dtype_group_calls [unfolded list_all_iff])

lemma bucket_step_oversized:
  "cap < grad_bytes g \<Longrightarrow>
     flushed (bucket_step cap dp st g) =
       flushed st @ (if tensor_bucket st \<noteq> [] then [tensor_bucket st] else []) @ [[div_data dp g]]
     \<and> tensor_bucket (bucket_step cap dp st g) = (if tensor_bucket st \<noteq> [] then [] else tensor_bucket st)"
  by (simp add: bucket_step_def Let_def grad_bytes_div_data)

lemma bucket_step_overflow:
  "\<not> cap < grad_bytes g \<Longrightarrow> cap < total_bytes st + grad_bytes g \<Longrightarrow>
     flushed (bucket_step cap dp st g) = flushed st @ [tensor_bucket st]
     \<and> tensor_bucket (bucket_step cap dp st g) = [div_data dp g]"
  by (simp add: bucket_step_def Let_def grad_bytes_div_data)

lemma flush_example_calls:
  "map (map label) (bucket_allreduce_gradients None dp flush_example) =
     [[''g4''], [''g3'', ''g2''], [''g1'']]"
proof -
  have "\<forall>g\<in>set flush_example. dtype g = ''torch.float32''"
    by (simp add: flush_example_def sized_grad_def)
  then have "bucket_allreduce_gradients None dp flush_example =
      bucket_dtype_group (bucket_cap_bytes None) dp flush_example"
    by (rule bucket_allreduce_gradients_same)
  then show ?thesis
    by (simp add: bucket_dtype_group_def bucket_step_def bucket_cap_bytes_def grad_bytes_def
          div_data_def flush_example_def sized_grad_def Let_def)
qed


text \<open>
  C3: for the gradients g1 (100 MiB), g2 (300 MiB), g3 (200 MiB), g4 (600 MiB) of one element
  type, in that input order and with the default capacity of 512 MiB, the all-reduce calls
  are [g4], then [g3, g2], then [g1].  In general, for gradients of one element type the
  calls, one after the other, hold the gradients (each divided by the data-parallel size)
  in exactly the reverse of the input order; no call is empty, a call with several tensors
  fits the capacity, and a gradient larger than the capacity is reduced alone.  A step
  with an oversized gradient first flushes the accumulated bucket, if any, and then
  reduces the gradient alone; a step whose gradient overflows the bucket flushes the
  bucket and starts a new one with that gradient.
\<close>

theorem bucket_flush_order:
  "map (map label) (bucket_allreduce_gradients None dp flush_example) =
     [[''g4''], [''g3'', ''g2''], [''g1'']]
   \<and> ((\<forall>g\<in>set grads_list. dtype g = tp) \<longrightarrow>
        concat (bucket_allreduce_gradients env dp grads_list) = map (div_data dp) (rev grads_list))
   \<and> (\<forall>c\<in>set (bucket_allreduce_gradients env dp grads_list).
        c \<noteq> []
        \<and> (length c = 1 \<or> sum_list (map grad_bytes c) \<le> bucket_cap_bytes env)
        \<and> (\<forall>g\<in>set c. bucket_cap_bytes env < grad_bytes g \<longrightarrow> c = [g]))
   \<and> (cap < grad_bytes g \<longrightarrow>
        flushed (bucket_step cap dp st g) =
          flushed st @ (if tensor_bucket st \<noteq> [] then [tensor_bucket st] else [])
            @ [[div_data dp g]]
        \<and> tensor_bucket (bucket_step cap dp st g) = [])
   \<and> (\<not> cap < grad_bytes g \<and> cap < total_bytes st + grad_bytes g \<longrightarrow>
        flushed (bucket_step cap dp st g) = flushed st @ [tensor_bucket st]
        \<and> tensor_bucket (bucket_step cap dp st g) = [div_data dp g])"
proof (intro conjI impI ballI)
  show "map (map label) (bucket_allreduce_gradients None dp flush_example) =
     [[''g4''], [''g3'', ''g2''], [''g1'']]"
    by (rule flush_example_calls)
next
  assume "\<forall>g\<in>set grads_list. dtype g = tp"
  then show "concat (bucket_allreduce_gradients env dp grads_list) = map (div_data dp) (rev grads_list)"
    using bucket_allreduce_gradients_same [of grads_list tp env dp]
    by (simp add: bucket_dtype_group_concat)
next
  fix c assume "c \<in> set (bucket_allreduce_gradients env dp grads_list)"
  with bucket_allreduce_gradients_calls [of env dp grads_list]
  have ok: "call_ok (bucket_cap_bytes env) c" by (simp add: list_all_iff)
  then show "c \<noteq> []" and "length c = 1 \<or> sum_list (map grad_bytes c) \<le> bucket_cap_bytes env"
    by (simp_all add: call_ok_def)
  fix g assume "g \<in> set c" and "bucket_cap_bytes env < grad_bytes g"
  with ok show "c = [g]" by (rule call_ok_oversized)
next
  assume "cap < grad_bytes g"
  then show "flushed (bucket_step cap dp st g) =
          flushed st @ (if tensor_bucket st \<noteq> [] then [tensor_bucket st] else [])
            @ [[div_data dp g]]"
    and "tensor_bucket (bucket_step cap dp st g) = []"
    using bucket_step_oversized [of cap g dp st] by auto
next
  assume "\<not> cap < grad_bytes g \<and> cap < total_bytes st + grad_bytes g"
  then show "flushed (bucket_step cap dp st g) = flushed st @ [tensor_bucket st]"
    and "tensor_bucket (bucket_step cap dp st g) = [div_data dp g]"
    using bucket_step_overflow [of cap g st dp] by auto
qed

theorem bucket_flush_order_witness:
  "map dtype flush_example = [''torch.float32'', ''torch.float32'', ''torch.float32'', ''torch.float32'']
   \<and> map (map label) (bucket_allreduce_gradients None 2 flush_example) =
        [[''g4''], [''g3'', ''g2''], [''g1'']]
   \<and> map label (concat (bucket_allreduce_gradients None 2 flush_example)) =
        map label (rev flush_example)
   \<and> bucket_cap_bytes None < grad_bytes (sized_grad ''g4'' 600)
   \<and> flushed (bucket_step (bucket_cap_bytes None) 2
         \<lparr>total_bytes = 0, tensor_bucket = [], flushed = []\<rparr> (sized_grad ''g4'' 600)) =
       [[div_data 2 (sized_grad ''g4'' 600)]]
   \<and> bucket_cap_bytes None <
       total_bytes \<lparr>total_bytes = 524288000,
          tensor_bucket = [div_data 2 (sized_grad ''g3'' 200), div_data 2 (sized_grad ''g2'' 300)],
          flushed = [[div_data 2 (sized_grad ''g4'' 600)]]\<rparr> + grad_bytes (sized_grad ''g1'' 100)
   \<and> tensor_bucket (bucket_step (bucket_cap_bytes None) 2
         \<lparr>total_bytes = 524288000,
          tensor_bucket = [div_data 2 (sized_grad ''g3'' 200), div_data 2 (sized_grad ''g2'' 300)],
          flushed = [[div_data 2 (sized_grad ''g4'' 600)]]\<rparr> (sized_grad ''g1'' 100)) =
       [div_data 2 (sized_grad ''g1'' 100)]"
proof -
  note a = bucket_flush_order [of 2 flush_example "''torch.float32''" None "bucket_cap_bytes None"
      "sized_grad ''g4'' 600" "\<lparr>total_bytes = 0, tensor_bucket = [], flushed = []\<rparr>"]
  note b = bucket_flush_order [of 2 flush_example "''torch.float32''" None "bucket_cap_bytes None"
      "sized_grad ''g1'' 100"
      "\<lparr>total_bytes = 524288000,
          tensor_bucket = [div_data 2 (sized_grad ''g3'' 200), div_data 2 (sized_grad ''g2'' 300)],
          flushed = [[div_data 2 (sized_grad ''g4'' 600)]]\<rparr>"]
  have d: "map dtype flush_example =
      [''torch.float32'', ''torch.float32'', ''torch.float32'', ''torch.float32'']"
    by (simp add: flush_example_def sized_grad_def)
  then have all: "\<forall>g\<in>set flush_example. dtype g = ''torch.float32''"
    by (simp add: flush_example_def sized_grad_def)
  have big: "bucket_cap_bytes None < grad_bytes (sized_grad ''g4'' 600)"
    by (simp add: bucket_cap_bytes_def grad_bytes_def sized_grad_def)
  have fits: "\<not> bucket_cap_bytes None < grad_bytes (sized_grad ''g1'' 100)"
    by (simp add: bucket_cap_bytes_def grad_bytes_def sized_grad_def)
  have over: "bucket_cap_bytes None <
       total_bytes \<lparr>total_bytes = 524288000,
          tensor_bucket = [div_data 2 (sized_grad ''g3'' 200), div_data 2 (sized_grad ''g2'' 300)],
          flushed = [[div_data 2 (sized_grad ''g4'' 600)]]\<rparr> + grad_bytes (sized_grad ''g1'' 100)"
    by (simp add: bucket_cap_bytes_def grad_bytes_def sized_grad_def)
  from a all have "concat (bucket_allreduce_gradients None 2 flush_example) =
      map (div_data 2) (rev flush_example)" by blast
  then have c: "map label (concat (bucket_allreduce_gradients None 2 flush_example)) =
        map label (rev flush_example)"
    by (simp add: div_data_def o_def)
  from a have e: "map (map label) (bucket_allreduce_gradients None 2 flush_example) =
        [[''g4''], [''g3'', ''g2''], [''g1'']]" by blast
  from a big have f: "flushed (bucket_step (bucket_cap_bytes None) 2
         \<lparr>total_bytes = 0, tensor_bucket = [], flushed = []\<rparr> (sized_grad ''g4'' 600)) =
       [[div_data 2 (sized_grad ''g4'' 600)]]" by simp
  from b fits over have g: "tensor_bucket (bucket_step (bucket_cap_bytes None) 2
         \<lparr>total_bytes = 524288000,
          tensor_bucket = [div_data 2 (sized_grad ''g3'' 200), div_data 2 (sized_grad ''g2'' 300)],
          flushed = [[div_data 2 (sized_grad ''g4'' 600)]]\<rparr> (sized_grad ''g1'' 100)) =
       [div_data 2 (sized_grad ''g1'' 100)]" by blast
  from d e c big f over g show ?thesis by blast
qed

end
